theory Spec2Isabelle
  imports Complex_Main
begin

section \<open>JavaScript numbers and dates\<close>

text \<open>
  A JavaScript \<open>number\<close> is modelled as an exact real, or one of the three special
  values that a division by zero produces.  Rounding, overflow and the sign of zero are
  not modelled: series values and configuration numbers are finite reals, and only the
  results of divisions (which the source performs with possibly zero divisors) range
  over \<open>jsnum\<close>.
\<close>

datatype jsnum = Fin real | PosInf | NegInf | NaN

text \<open>\<open>a / b\<close> on finite operands.\<close>

definition js_div :: "real \<Rightarrow> real \<Rightarrow> jsnum" where
  "js_div a b =
     (if b \<noteq> 0 then Fin (a / b)
      else if 0 < a then PosInf
      else if a < 0 then NegInf
      else NaN)"

text \<open>\<open>x * k\<close> for a finite factor \<open>k\<close>.\<close>

fun js_times :: "jsnum \<Rightarrow> real \<Rightarrow> jsnum" where
  "js_times (Fin a) k = Fin (a * k)"
| "js_times PosInf k = (if 0 < k then PosInf else if k < 0 then NegInf else NaN)"
| "js_times NegInf k = (if 0 < k then NegInf else if k < 0 then PosInf else NaN)"
| "js_times NaN k = NaN"

text \<open>\<open>x >= y\<close> and \<open>x > y\<close>: every comparison with \<open>NaN\<close> is false.\<close>

fun js_ge :: "jsnum \<Rightarrow> jsnum \<Rightarrow> bool" where
  "js_ge NaN y = False"
| "js_ge x NaN = False"
| "js_ge (Fin a) (Fin b) = (b \<le> a)"
| "js_ge PosInf y = True"
| "js_ge x NegInf = True"
| "js_ge (Fin a) PosInf = False"
| "js_ge NegInf y = False"

fun js_gt :: "jsnum \<Rightarrow> jsnum \<Rightarrow> bool" where
  "js_gt NaN y = False"
| "js_gt x NaN = False"
| "js_gt (Fin a) (Fin b) = (b < a)"
| "js_gt PosInf PosInf = False"
| "js_gt PosInf y = True"
| "js_gt NegInf y = False"
| "js_gt (Fin a) NegInf = True"
| "js_gt (Fin a) PosInf = False"

text \<open>\<open>Math.abs\<close>.\<close>

fun js_abs :: "jsnum \<Rightarrow> jsnum" where
  "js_abs (Fin a) = Fin \<bar>a\<bar>"
| "js_abs PosInf = PosInf"
| "js_abs NegInf = PosInf"
| "js_abs NaN = NaN"

text \<open>
  A \<open>Date\<close> is its time value in milliseconds since the epoch, or the invalid date
  (whose time value is \<open>NaN\<close>).
\<close>

datatype date = Date int | InvalidDate

datatype error = RangeError

text \<open>
  \<open>Date.prototype.toISOString\<close> throws a \<open>RangeError\<close> on the invalid date.  The ISO
  string of a valid date and its time value determine each other, so the model uses the
  time value in place of the string.
\<close>

definition toISOString :: "date \<Rightarrow> error + int" where
  "toISOString d = (case d of InvalidDate \<Rightarrow> Inl RangeError | Date ms \<Rightarrow> Inr ms)"



section \<open>JavaScript values and strings\<close>

text \<open>
  The values that a cell or a normalised field can hold (\<open>any\<close> in the source): \<open>null\<close>,
  \<open>undefined\<close>, a string, a number, a boolean or a \<open>Date\<close>.
\<close>

datatype jsval = JNull | JUndefined | JStr string | JNum jsnum | JBool bool | JDate date

text \<open>
  The built-in conversions between strings, numbers and dates belong to the JavaScript
  runtime, not to the repository; they are parameters of the model, together with the
  clock that \<open>new Date()\<close> reads.
\<close>

record runtime =
  stringToNumber :: "string \<Rightarrow> jsnum"
  numberToString :: "jsnum \<Rightarrow> string"
  parseDate :: "string \<Rightarrow> date"
  dateToString :: "date \<Rightarrow> string"
  now :: int

text \<open>\<open>String(value)\<close>, \<open>Number(value)\<close>, \<open>new Date(value)\<close> and \<open>isNaN\<close> on the values above.\<close>

definition js_String :: "runtime \<Rightarrow> jsval \<Rightarrow> string" where
  "js_String rt v =
     (case v of
        JNull \<Rightarrow> ''null''
      | JUndefined \<Rightarrow> ''undefined''
      | JStr s \<Rightarrow> s
      | JNum n \<Rightarrow> numberToString rt n
      | JBool b \<Rightarrow> (if b then ''true'' else ''false'')
      | JDate d \<Rightarrow> dateToString rt d)"

definition js_Number :: "runtime \<Rightarrow> jsval \<Rightarrow> jsnum" where
  "js_Number rt v =
     (case v of
        JNull \<Rightarrow> Fin 0
      | JUndefined \<Rightarrow> NaN
      | JStr s \<Rightarrow> stringToNumber rt s
      | JNum n \<Rightarrow> n
      | JBool b \<Rightarrow> Fin (if b then 1 else 0)
      | JDate d \<Rightarrow> (case d of Date ms \<Rightarrow> Fin (real_of_int ms) | InvalidDate \<Rightarrow> NaN))"

definition new_Date :: "runtime \<Rightarrow> jsval \<Rightarrow> date" where
  "new_Date rt v =
     (case v of
        JNull \<Rightarrow> Date 0
      | JUndefined \<Rightarrow> InvalidDate
      | JStr s \<Rightarrow> parseDate rt s
      | JNum n \<Rightarrow>
          (case n of
             Fin r \<Rightarrow> (if \<bar>r\<bar> \<le> 8640000000000000
                        then Date (if 0 \<le> r then \<lfloor>r\<rfloor> else \<lceil>r\<rceil>)
                        else InvalidDate)
           | _ \<Rightarrow> InvalidDate)
      | JBool b \<Rightarrow> Date (if b then 1 else 0)
      | JDate d \<Rightarrow> d)"

definition isNaN :: "jsnum \<Rightarrow> bool" where
  "isNaN n = (n = NaN)"

text \<open>
  Strings are lists of bytes.  \<open>toLowerCase\<close> maps the letters \<open>A\<close> to \<open>Z\<close>, \<open>trim\<close>
  removes the ASCII white space at both ends, and \<open>str_includes\<close> is the substring test of \<open>String.prototype.includes\<close>; what
  the runtime does beyond ASCII is not modelled.
\<close>

definition toLowerChar :: "char \<Rightarrow> char" where
  "toLowerChar c =
     (case map_of (zip ''ABCDEFGHIJKLMNOPQRSTUVWXYZ'' ''abcdefghijklmnopqrstuvwxyz'') c of
        Some l \<Rightarrow> l
      | None \<Rightarrow> c)"

definition toLowerCase :: "string \<Rightarrow> string" where
  "toLowerCase s = map toLowerChar s"

definition is_space :: "char \<Rightarrow> bool" where
  "is_space c = (c \<in> set [CHR '' '', CHR 0x09, CHR 0x0A, CHR 0x0B, CHR 0x0C, CHR 0x0D])"

definition trim :: "string \<Rightarrow> string" where
  "trim s = rev (dropWhile is_space (rev (dropWhile is_space s)))"

fun starts_with :: "string \<Rightarrow> string \<Rightarrow> bool" where
  "starts_with s [] = True"
| "starts_with [] (p # ps) = False"
| "starts_with (c # cs) (p # ps) = (c = p \<and> starts_with cs ps)"

fun str_includes :: "string \<Rightarrow> string \<Rightarrow> bool" where
  "str_includes [] p = (p = [])"
| "str_includes (c # cs) p = (starts_with (c # cs) p \<or> str_includes cs p)"

text \<open>
  The three regular expressions of \<open>inferDataType\<close> are sequences of digit classes and
  literal characters, anchored at the start; the first two are anchored at the end as well.
\<close>

datatype pattern_item = Digit | Lit char

definition is_digit :: "char \<Rightarrow> bool" where
  "is_digit c = (c \<in> set ''0123456789'')"

fun matches_prefix :: "pattern_item list \<Rightarrow> string \<Rightarrow> bool" where
  "matches_prefix [] s = True"
| "matches_prefix (p # ps) [] = False"
| "matches_prefix (p # ps) (c # cs) =
     ((case p of Digit \<Rightarrow> is_digit c | Lit l \<Rightarrow> c = l) \<and> matches_prefix ps cs)"

definition matches_whole :: "pattern_item list \<Rightarrow> string \<Rightarrow> bool" where
  "matches_whole ps s = (length s = length ps \<and> matches_prefix ps s)"

definition datePatterns :: "(string \<Rightarrow> bool) list" where
  "datePatterns =
     [matches_whole [Digit, Digit, Digit, Digit, Lit CHR ''-'', Digit, Digit, Lit CHR ''-'',
                     Digit, Digit],
      matches_whole [Digit, Digit, Lit CHR ''/'', Digit, Digit, Lit CHR ''/'',
                     Digit, Digit, Digit, Digit],
      matches_prefix [Digit, Digit, Digit, Digit, Lit CHR ''-'', Digit, Digit, Lit CHR ''-'',
                      Digit, Digit, Lit CHR ''T'', Digit, Digit, Lit CHR '':'', Digit, Digit,
                      Lit CHR '':'', Digit, Digit]]"


section \<open>Schema inference and field mapping (src/lib/csv/parser.ts)\<close>

definition inferDataType :: "runtime \<Rightarrow> jsval \<Rightarrow> string" where
  "inferDataType rt v =
     (if v = JNull \<or> v = JUndefined \<or> v = JStr '''' then ''string''
      else
        let str = trim (js_String rt v) in
        if \<not> isNaN (stringToNumber rt str) \<and> str \<noteq> '''' then
          (if CHR ''.'' \<in> set str then ''number'' else ''integer'')
        else if list_ex (\<lambda>pattern. pattern str) datePatterns
                \<and> parseDate rt str \<noteq> InvalidDate then ''timestamp''
        else if toLowerCase str = ''true'' \<or> toLowerCase str = ''false'' then ''boolean''
        else ''string'')"

text \<open>
  \<open>AnalyticsEventMapping\<close>: an absent role is \<open>None\<close>.  The test \<open>!mapping.role\<close> of the
  source holds for an absent role and for the empty string.
\<close>

record AnalyticsEventMapping =
  eventTypeColumn :: "string option"
  timestampColumn :: "string option"
  metricValueColumn :: "string option"
  dimensionColumns :: "string list"

definition falsy :: "string option \<Rightarrow> bool" where
  "falsy x = (x = None \<or> x = Some '''')"

definition timestampPatterns :: "string list" where
  "timestampPatterns = [''timestamp'', ''time'', ''date'', ''created'', ''occurred'', ''event_time'']"

definition typePatterns :: "string list" where
  "typePatterns = [''type'', ''event_type'', ''event'', ''action'', ''category'']"

definition valuePatterns :: "string list" where
  "valuePatterns = [''value'', ''amount'', ''count'', ''metric'', ''score'', ''revenue'', ''total'']"

text \<open>The \<open>for\<close> loop over the columns; \<open>continue\<close> is the recursive call.\<close>

fun detectEventMapping_loop ::
  "(string \<rightharpoonup> string) \<Rightarrow> string list \<Rightarrow> AnalyticsEventMapping \<Rightarrow> AnalyticsEventMapping" where
  "detectEventMapping_loop schema [] mapping = mapping"
| "detectEventMapping_loop schema (column # rest) mapping =
     (let lowerColumn = toLowerCase column in
      if falsy (timestampColumn mapping) \<and> schema column = Some ''timestamp''
         \<and> list_ex (\<lambda>p. str_includes lowerColumn p) timestampPatterns then
        detectEventMapping_loop schema rest (mapping\<lparr>timestampColumn := Some column\<rparr>)
      else if falsy (eventTypeColumn mapping) \<and> schema column = Some ''string''
         \<and> list_ex (\<lambda>p. str_includes lowerColumn p) typePatterns then
        detectEventMapping_loop schema rest (mapping\<lparr>eventTypeColumn := Some column\<rparr>)
      else if falsy (metricValueColumn mapping)
         \<and> (schema column = Some ''number'' \<or> schema column = Some ''integer'')
         \<and> list_ex (\<lambda>p. str_includes lowerColumn p) valuePatterns then
        detectEventMapping_loop schema rest (mapping\<lparr>metricValueColumn := Some column\<rparr>)
      else
        detectEventMapping_loop schema rest
          (mapping\<lparr>dimensionColumns := dimensionColumns mapping @ [column]\<rparr>))"

definition detectEventMapping ::
  "string list \<Rightarrow> (string \<rightharpoonup> string) \<Rightarrow> AnalyticsEventMapping" where
  "detectEventMapping columns schema =
     (let mapping0 = detectEventMapping_loop schema columns
            \<lparr>eventTypeColumn = None, timestampColumn = None, metricValueColumn = None,
             dimensionColumns = []\<rparr>;
          mapping1 =
            (if falsy (timestampColumn mapping0) then
               let timestampCols = filter (\<lambda>c. schema c = Some ''timestamp'') columns in
               if length timestampCols > 0 then
                 mapping0\<lparr>timestampColumn := Some (hd timestampCols),
                          dimensionColumns :=
                            filter (\<lambda>c. c \<noteq> hd timestampCols) (dimensionColumns mapping0)\<rparr>
               else mapping0
             else mapping0)
      in if falsy (eventTypeColumn mapping1)
         then mapping1\<lparr>eventTypeColumn := Some ''default_event''\<rparr>
         else mapping1)"

definition normalizeValue :: "runtime \<Rightarrow> jsval \<Rightarrow> string \<Rightarrow> jsval" where
  "normalizeValue rt v ty =
     (if v = JNull \<or> v = JUndefined \<or> v = JStr '''' then JNull
      else if ty = ''number'' \<or> ty = ''integer'' then
        (let num = js_Number rt v in if isNaN num then JNull else JNum num)
      else if ty = ''timestamp'' then
        (let date = new_Date rt v in
         if date = InvalidDate then JDate (Date (now rt)) else JDate date)
      else if ty = ''boolean'' then
        (let str = toLowerCase (js_String rt v) in
         JBool (str = ''true'' \<or> str = ''1'' \<or> str = ''yes''))
      else JStr (js_String rt v))"

subsection \<open>Vocabulary for the properties of the field mapping\<close>

text \<open>The columns of the input that the mapping assigns to one of the three roles.\<close>

definition role_columns :: "AnalyticsEventMapping \<Rightarrow> string list \<Rightarrow> string set" where
  "role_columns m columns =
     {c \<in> set columns.
        timestampColumn m = Some c \<or> eventTypeColumn m = Some c \<or> metricValueColumn m = Some c}"

text \<open>
  The invariant of the loop of \<open>detectEventMapping\<close> after the columns \<open>seen\<close>: every
  column seen is a dimension or a role, never both, and a role holds a non-empty name whose
  schema type is the one the role asks for.
\<close>

definition mapping_inv ::
  "(string \<rightharpoonup> string) \<Rightarrow> string list \<Rightarrow> AnalyticsEventMapping \<Rightarrow> bool" where
  "mapping_inv schema seen m =
     (distinct (dimensionColumns m) \<and>
      set (dimensionColumns m) \<union>
        (set_option (timestampColumn m) \<union> set_option (eventTypeColumn m) \<union>
         set_option (metricValueColumn m)) = set seen \<and>
      set (dimensionColumns m) \<inter>
        (set_option (timestampColumn m) \<union> set_option (eventTypeColumn m) \<union>
         set_option (metricValueColumn m)) = {} \<and>
      (\<forall>c. timestampColumn m = Some c \<longrightarrow> schema c = Some ''timestamp'' \<and> c \<noteq> '''') \<and>
      (\<forall>c. eventTypeColumn m = Some c \<longrightarrow> schema c = Some ''string'' \<and> c \<noteq> '''') \<and>
      (\<forall>c. metricValueColumn m = Some c \<longrightarrow>
         (schema c = Some ''number'' \<or> schema c = Some ''integer'') \<and> c \<noteq> ''''))"


section \<open>Row validation (lib/csv/validation, the second module in src/lib/csv/parser.ts)\<close>

text \<open>A row of the parsed file (\<open>Record<string, any>\<close>); a missing key reads as \<open>undefined\<close>.\<close>

type_synonym csv_row = "string \<rightharpoonup> jsval"

definition row_get :: "csv_row \<Rightarrow> string \<Rightarrow> jsval" where
  "row_get r k = (case r k of None \<Rightarrow> JUndefined | Some v \<Rightarrow> v)"

text \<open>
  \<open>csvRowSchema\<close>.  An issue is a path and a message.  The messages for a value of the
  wrong type and for a failed union are those of the zod library, and \<open>zod_type_name\<close>
  is the name that the library has for the type of a value; the other three messages are
  the ones the source gives.
\<close>

record ZodIssue =
  path :: "string list"
  issue_message :: string

record ValidatedCSVRow =
  v_timestamp :: string
  v_event_type :: string
  v_value :: jsnum

definition zod_type_name :: "jsval \<Rightarrow> string" where
  "zod_type_name v =
     (case v of
        JNull \<Rightarrow> ''null''
      | JUndefined \<Rightarrow> ''undefined''
      | JStr s \<Rightarrow> ''string''
      | JNum n \<Rightarrow> (if isNaN n then ''nan'' else ''number'')
      | JBool b \<Rightarrow> ''boolean''
      | JDate d \<Rightarrow> ''date'')"

definition invalid_type_issue :: "string \<Rightarrow> string \<Rightarrow> jsval \<Rightarrow> ZodIssue" where
  "invalid_type_issue key expected v =
     \<lparr>path = [key],
      issue_message = (if v = JUndefined then ''Required''
                       else ''Expected '' @ expected @ '', received '' @ zod_type_name v)\<rparr>"

text \<open>The three fields of the schema: the issues each one raises on a value.\<close>

definition timestamp_issues :: "runtime \<Rightarrow> jsval \<Rightarrow> ZodIssue list" where
  "timestamp_issues rt v =
     (case v of
        JStr val \<Rightarrow>
          (let date = parseDate rt val in
           if date \<noteq> InvalidDate then []
           else [\<lparr>path = [''timestamp''],
                  issue_message =
                    ''Invalid timestamp format. Expected ISO string or parseable date.''\<rparr>])
      | _ \<Rightarrow> [invalid_type_issue ''timestamp'' ''string'' v])"

definition event_type_issues :: "jsval \<Rightarrow> ZodIssue list" where
  "event_type_issues v =
     (case v of
        JStr val \<Rightarrow>
          (if length val \<ge> 1 then []
           else [\<lparr>path = [''event_type''], issue_message = ''event_type is required''\<rparr>])
      | _ \<Rightarrow> [invalid_type_issue ''event_type'' ''string'' v])"

definition value_issues :: "runtime \<Rightarrow> jsval \<Rightarrow> ZodIssue list" where
  "value_issues rt v =
     (case v of
        JNum n \<Rightarrow>
          (if \<not> isNaN n then []
           else [\<lparr>path = [''value''], issue_message = ''Invalid input''\<rparr>])
      | JStr val \<Rightarrow>
          (if \<not> isNaN (stringToNumber rt val) then []
           else [\<lparr>path = [''value''], issue_message = ''value must be a valid number''\<rparr>])
      | _ \<Rightarrow> [\<lparr>path = [''value''], issue_message = ''Invalid input''\<rparr>])"

text \<open>\<open>csvRowSchema.safeParse\<close> on the normalised row: the issues, or the parsed data.\<close>

definition safeParse :: "runtime \<Rightarrow> jsval \<Rightarrow> jsval \<Rightarrow> jsval \<Rightarrow> ZodIssue list + ValidatedCSVRow" where
  "safeParse rt ts et v =
     (let issues = timestamp_issues rt ts @ event_type_issues et @ value_issues rt v in
      if issues = [] then
        Inr \<lparr>v_timestamp = js_String rt ts, v_event_type = js_String rt et,
             v_value = js_Number rt v\<rparr>
      else Inl issues)"

record ValidationError =
  row :: nat
  field :: string
  message :: string

record ValidationSummary =
  totalRows :: nat
  validRowCount :: nat
  invalidRowCount :: nat

text \<open>
  An element of \<open>validRows\<close>: the original row, extended by the keys \<open>_validated\<close>,
  \<open>_timestampCol\<close>, \<open>_eventTypeCol\<close> and \<open>_valueCol\<close>.
\<close>

record ValidRow =
  original :: csv_row
  validated :: ValidatedCSVRow
  timestampCol :: string
  eventTypeCol :: string
  valueCol :: string

record ValidationResult =
  valid :: bool
  validRows :: "ValidRow list"
  errors :: "ValidationError list"
  summary :: ValidationSummary

text \<open>\<open>Array.prototype.join\<close> and the decimal form of a natural number.\<close>

fun join :: "string \<Rightarrow> string list \<Rightarrow> string" where
  "join sep [] = ''''"
| "join sep [x] = x"
| "join sep (x # y # ys) = x @ sep @ join sep (y # ys)"

fun show_nat :: "nat \<Rightarrow> string" where
  "show_nat n =
     (if n < 10 then [''0123456789'' ! n]
      else show_nat (n div 10) @ [''0123456789'' ! (n mod 10)])"

declare show_nat.simps [simp del]

definition timestampAliases :: "string list" where
  "timestampAliases = [''timestamp'', ''time'', ''date'', ''created_at'', ''event_time'']"

definition eventTypeAliases :: "string list" where
  "eventTypeAliases = [''event_type'', ''type'', ''event'', ''action'']"

definition valueAliases :: "string list" where
  "valueAliases = [''value'', ''amount'', ''count'', ''metric'', ''metric_value'']"

text \<open>
  The loop over the rows of \<open>validateCSVData\<close>, from index \<open>i\<close> on; the state is the pair
  of \<open>validRows\<close> and \<open>errors\<close>.
\<close>

fun validate_rows ::
  "runtime \<Rightarrow> string \<Rightarrow> string \<Rightarrow> string \<Rightarrow> csv_row list \<Rightarrow> nat \<Rightarrow>
   ValidRow list \<times> ValidationError list \<Rightarrow> ValidRow list \<times> ValidationError list" where
  "validate_rows rt tc ec vc [] i (vrows, errs) = (vrows, errs)"
| "validate_rows rt tc ec vc (r # rest) i (vrows, errs) =
     (let rowNumber = i + 2 in
      case safeParse rt (row_get r tc) (row_get r ec) (row_get r vc) of
        Inr data \<Rightarrow>
          validate_rows rt tc ec vc rest (i + 1)
            (vrows @ [\<lparr>original = r, validated = data, timestampCol = tc,
                       eventTypeCol = ec, valueCol = vc\<rparr>], errs)
      | Inl issues \<Rightarrow>
          validate_rows rt tc ec vc rest (i + 1)
            (vrows,
             errs @ map (\<lambda>err.
                       \<lparr>row = rowNumber,
                        field = (if join ''.'' (path err) = '''' then ''unknown''
                                 else join ''.'' (path err)),
                        message = issue_message err\<rparr>) issues))"

definition validateCSVData :: "runtime \<Rightarrow> csv_row list \<Rightarrow> string list \<Rightarrow> ValidationResult" where
  "validateCSVData rt data columns =
     (let timestampCol = find (\<lambda>c. toLowerCase c \<in> set timestampAliases) columns;
          eventTypeCol = find (\<lambda>c. toLowerCase c \<in> set eventTypeAliases) columns;
          valueCol = find (\<lambda>c. toLowerCase c \<in> set valueAliases) columns;
          missingColumns =
            (if falsy timestampCol then [''timestamp''] else []) @
            (if falsy eventTypeCol then [''event_type''] else []) @
            (if falsy valueCol then [''value''] else [])
      in
      if length missingColumns > 0 then
        \<lparr>valid = False,
         validRows = [],
         errors =
           [\<lparr>row = 0, field = ''schema'',
             message =
               ''Missing required columns: '' @ join '', '' missingColumns @ ''. '' @
               ''Expected: timestamp (or time/date), event_type (or type/event), value (or amount/metric).''\<rparr>],
         summary = \<lparr>totalRows = length data, validRowCount = 0,
                     invalidRowCount = length data\<rparr>\<rparr>
      else
        let (vrows, errs) =
              validate_rows rt (the timestampCol) (the eventTypeCol) (the valueCol) data 0 ([], []);
            displayErrors =
              take 10 errs @
              (if length errs > 10 then
                 [\<lparr>row = 0, field = ''summary'',
                   message = ''... and '' @ show_nat (length errs - 10) @
                             '' more validation errors''\<rparr>]
               else [])
        in \<lparr>valid = (length errs = 0),
            validRows = vrows,
            errors = displayErrors,
            summary = \<lparr>totalRows = length data, validRowCount = length vrows,
                        invalidRowCount = length data - length vrows\<rparr>\<rparr>)"

subsection \<open>Vocabulary for the properties of the validation\<close>

text \<open>
  The required roles for which no column has its lower-cased name among the aliases of the
  role, in the order timestamp, event type, value.
\<close>

definition missing_roles :: "string list \<Rightarrow> string list" where
  "missing_roles columns =
     (if \<not> (\<exists>c \<in> set columns. toLowerCase c \<in> set timestampAliases) then [''timestamp''] else []) @
     (if \<not> (\<exists>c \<in> set columns. toLowerCase c \<in> set eventTypeAliases) then [''event_type''] else []) @
     (if \<not> (\<exists>c \<in> set columns. toLowerCase c \<in> set valueAliases) then [''value''] else [])"


section \<open>Aggregation (lib/analytics/aggregation, in src/unnamed/part_002)\<close>

text \<open>
  The table \<open>analytics_events\<close> is a list of rows; \<open>event_timestamp\<close> is a time value in
  milliseconds and \<open>metric_value\<close> is nullable.  Numeric columns are exact reals.
\<close>

datatype AggregationPeriod = Hour | Day | Week | Month

record AnalyticsEvent =
  ev_tenant_id :: string
  ev_event_type :: string
  event_timestamp :: int
  ev_metric_value :: "real option"

text \<open>
  \<open>date_trunc\<close> for a bucket of the given width in milliseconds, in a session whose time
  zone is UTC: an hour is 3600000 ms, a day 86400000 ms.
\<close>

definition date_trunc :: "int \<Rightarrow> int \<Rightarrow> int" where
  "date_trunc width ts = ts - ts mod width"

text \<open>
  The SQL aggregates ignore nulls and are null when no value is left.  In PostgreSQL
  \<open>STDDEV\<close> is the historical name of \<open>stddev_samp\<close>: it is null for fewer than two
  values and otherwise the square root of \<open>(N * sum(x^2) - sum(x)^2) / (N * (N - 1))\<close>.
\<close>

definition non_null :: "real option list \<Rightarrow> real list" where
  "non_null xs = List.map_filter (\<lambda>x. x) xs"

definition SQL_SUM :: "real option list \<Rightarrow> real option" where
  "SQL_SUM xs = (let vs = non_null xs in if vs = [] then None else Some (sum_list vs))"

definition SQL_AVG :: "real option list \<Rightarrow> real option" where
  "SQL_AVG xs =
     (let vs = non_null xs in if vs = [] then None else Some (sum_list vs / real (length vs)))"

definition SQL_MIN :: "real option list \<Rightarrow> real option" where
  "SQL_MIN xs = (let vs = non_null xs in if vs = [] then None else Some (fold min (tl vs) (hd vs)))"

definition SQL_MAX :: "real option list \<Rightarrow> real option" where
  "SQL_MAX xs = (let vs = non_null xs in if vs = [] then None else Some (fold max (tl vs) (hd vs)))"

definition SQL_STDDEV :: "real option list \<Rightarrow> real option" where
  "SQL_STDDEV xs =
     (let vs = non_null xs; n = length vs in
      if n < 2 then None
      else Some (sqrt ((real n * sum_list (map (\<lambda>x. x ^ 2) vs) - (sum_list vs) ^ 2)
                       / (real n * (real n - 1)))))"

text \<open>A row of the result of \<open>computeAggregationByHour\<close> or \<open>computeAggregationByDay\<close>.\<close>

record AggregationRow =
  r_period_start :: int
  r_period_end :: int
  r_count_events :: nat
  r_sum_value :: "real option"
  r_avg_value :: "real option"
  r_min_value :: "real option"
  r_max_value :: "real option"
  r_stddev_value :: "real option"

text \<open>The rows that the \<open>WHERE\<close> clause keeps.\<close>

definition matching_events ::
  "AnalyticsEvent list \<Rightarrow> string \<Rightarrow> string \<Rightarrow> int \<Rightarrow> int \<Rightarrow> AnalyticsEvent list" where
  "matching_events events tenantId eventType s e =
     filter (\<lambda>ev. ev_tenant_id ev = tenantId \<and> ev_event_type ev = eventType \<and>
                  event_timestamp ev \<ge> s \<and> event_timestamp ev \<le> e) events"

text \<open>
  The two queries differ in the width of the bucket only.  \<open>toISOString\<close> throws on an
  invalid bound.  The query has no \<open>ORDER BY\<close>; the model lists the groups by the
  position of their last row.
\<close>

definition computeAggregation ::
  "int \<Rightarrow> AnalyticsEvent list \<Rightarrow> string \<Rightarrow> string \<Rightarrow> date \<Rightarrow> date \<Rightarrow>
   error + AggregationRow list" where
  "computeAggregation width events tenantId eventType startDate endDate =
     (case toISOString startDate of
        Inl err \<Rightarrow> Inl err
      | Inr s \<Rightarrow>
         (case toISOString endDate of
            Inl err \<Rightarrow> Inl err
          | Inr e \<Rightarrow>
              let selected = matching_events events tenantId eventType s e;
                  keys = remdups (map (\<lambda>ev. date_trunc width (event_timestamp ev)) selected)
              in Inr (map (\<lambda>k.
                   let grp = filter (\<lambda>ev. date_trunc width (event_timestamp ev) = k) selected;
                       vals = map ev_metric_value grp
                   in \<lparr>r_period_start = k,
                       r_period_end = k + width,
                       r_count_events = length grp,
                       r_sum_value = SQL_SUM vals,
                       r_avg_value = SQL_AVG vals,
                       r_min_value = SQL_MIN vals,
                       r_max_value = SQL_MAX vals,
                       r_stddev_value = SQL_STDDEV vals\<rparr>) keys)))"

definition computeAggregationByHour ::
  "AnalyticsEvent list \<Rightarrow> string \<Rightarrow> string \<Rightarrow> date \<Rightarrow> date \<Rightarrow> error + AggregationRow list" where
  "computeAggregationByHour = computeAggregation 3600000"

definition computeAggregationByDay ::
  "AnalyticsEvent list \<Rightarrow> string \<Rightarrow> string \<Rightarrow> date \<Rightarrow> date \<Rightarrow> error + AggregationRow list" where
  "computeAggregationByDay = computeAggregation 86400000"

text \<open>
  \<open>row.x ? parseFloat(row.x) : null\<close>: a non-null \<open>NUMERIC\<close> arrives as its decimal
  text, a non-empty string, which \<open>parseFloat\<close> reads back; null stays null.
\<close>

definition parseFloat_or_null :: "real option \<Rightarrow> real option" where
  "parseFloat_or_null x = (case x of None \<Rightarrow> None | Some v \<Rightarrow> Some v)"

text \<open>The argument of \<open>insertAggregatedMetric\<close>.\<close>

record AggregatedMetric =
  am_tenant_id :: string
  am_event_type :: string
  aggregation_period :: AggregationPeriod
  period_start :: date
  period_end :: date
  count_events :: nat
  sum_value :: "real option"
  avg_value :: "real option"
  min_value :: "real option"
  max_value :: "real option"
  stddev_value :: "real option"
  dimensions :: "(string \<times> jsval) list"

text \<open>
  \<open>computeAndStoreAggregations\<close>: the metrics handed to \<open>insertAggregatedMetric\<close>, in
  order, or the error thrown before the query.
\<close>

definition computeAndStoreAggregations ::
  "AnalyticsEvent list \<Rightarrow> string \<Rightarrow> string \<Rightarrow> AggregationPeriod \<Rightarrow> date \<Rightarrow> date \<Rightarrow>
   error + AggregatedMetric list" where
  "computeAndStoreAggregations events tenantId eventType period startDate endDate =
     (case (case period of
              Hour \<Rightarrow> computeAggregationByHour events tenantId eventType startDate endDate
            | _ \<Rightarrow> computeAggregationByDay events tenantId eventType startDate endDate) of
        Inl err \<Rightarrow> Inl err
      | Inr results \<Rightarrow>
          Inr (map (\<lambda>r.
                 \<lparr>am_tenant_id = tenantId,
                  am_event_type = eventType,
                  aggregation_period = period,
                  period_start = Date (r_period_start r),
                  period_end = Date (r_period_end r),
                  count_events = r_count_events r,
                  sum_value = parseFloat_or_null (r_sum_value r),
                  avg_value = parseFloat_or_null (r_avg_value r),
                  min_value = parseFloat_or_null (r_min_value r),
                  max_value = parseFloat_or_null (r_max_value r),
                  stddev_value = parseFloat_or_null (r_stddev_value r),
                  dimensions = []\<rparr>) results))"

subsection \<open>Vocabulary for the properties of the aggregation\<close>

text \<open>
  The width of the buckets that \<open>computeAndStoreAggregations\<close> uses for a period, the
  non-null metric values of the bucket that starts at \<open>k\<close>, and the two standard
  deviations of a list of values: the population one divides the sum of the squared
  deviations from the mean by \<open>N\<close>, the sample one by \<open>N - 1\<close>.
\<close>

definition bucket_width :: "AggregationPeriod \<Rightarrow> int" where
  "bucket_width period = (case period of Hour \<Rightarrow> 3600000 | _ \<Rightarrow> 86400000)"

definition bucket_values ::
  "AnalyticsEvent list \<Rightarrow> string \<Rightarrow> string \<Rightarrow> AggregationPeriod \<Rightarrow> int \<Rightarrow> int \<Rightarrow> int \<Rightarrow> real list" where
  "bucket_values events tenantId eventType period s e k =
     non_null (map ev_metric_value
       (filter (\<lambda>ev. date_trunc (bucket_width period) (event_timestamp ev) = k)
          (matching_events events tenantId eventType s e)))"

definition squared_deviations :: "real list \<Rightarrow> real" where
  "squared_deviations vs =
     sum_list (map (\<lambda>v. (v - sum_list vs / real (length vs)) ^ 2) vs)"

definition population_stddev :: "real list \<Rightarrow> real option" where
  "population_stddev vs =
     (if vs = [] then None else Some (sqrt (squared_deviations vs / real (length vs))))"

definition sample_stddev :: "real list \<Rightarrow> real option" where
  "sample_stddev vs =
     (if length vs < 2 then None else Some (sqrt (squared_deviations vs / (real (length vs) - 1))))"


section \<open>Anomaly detection (src/lib/analytics/anomaly-detection.ts)\<close>

text \<open>\<open>TimeSeriesDataPoint\<close>; the fields \<open>value\<close> and \<open>count\<close> are \<open>pvalue\<close> and \<open>pcount\<close>.\<close>

record TimeSeriesDataPoint =
  timestamp :: date
  pvalue :: real
  pcount :: real

record AnomalyDetectionConfig =
  sensitivityLevel :: real
  minDataPoints :: real
  stddevThreshold :: real

record Statistics =
  mean :: real
  stddev :: real
  median :: real
  q1 :: real
  q3 :: real
  iqr :: real

datatype AnomalyType = Spike | Drop | Outlier

datatype AnomalySeverity = Low | Medium | High | Critical

text \<open>The elements of the arrays that both detection passes return.\<close>

record Anomaly =
  dataPoint :: TimeSeriesDataPoint
  anomalyType :: AnomalyType
  severity :: AnomalySeverity
  expectedValue :: real
  deviationPercentage :: jsnum

definition calculateStatistics :: "real list \<Rightarrow> Statistics" where
  "calculateStatistics values =
     (if length values = 0 then
        \<lparr>mean = 0, stddev = 0, median = 0, q1 = 0, q3 = 0, iqr = 0\<rparr>
      else
        let sorted = sort values;
            n = length sorted;
            mean = foldl (\<lambda>sum val. sum + val) 0 values / real n;
            variance = foldl (\<lambda>sum val. sum + (val - mean) ^ 2) 0 values / real n;
            stddev = sqrt variance;
            median = (if n mod 2 = 0
                      then (sorted ! (n div 2 - 1) + sorted ! (n div 2)) / 2
                      else sorted ! (n div 2));
            q1Index = nat \<lfloor>real n * 0.25\<rfloor>;
            q3Index = nat \<lfloor>real n * 0.75\<rfloor>;
            q1 = sorted ! q1Index;
            q3 = sorted ! q3Index;
            iqr = q3 - q1
        in \<lparr>mean = mean, stddev = stddev, median = median, q1 = q1, q3 = q3, iqr = iqr\<rparr>)"

definition getSeverity :: "jsnum \<Rightarrow> real \<Rightarrow> AnomalySeverity" where
  "getSeverity = (\<lambda>deviationPercentage sensitivityLevel.
      let adjustedThreshold = js_div 100 sensitivityLevel in
      if js_ge deviationPercentage (js_times adjustedThreshold 3) then Critical
      else if js_ge deviationPercentage (js_times adjustedThreshold 2) then High
      else if js_ge deviationPercentage adjustedThreshold then Medium
      else Low)"

text \<open>
  The \<open>for\<close> loop of \<open>detectOutliers\<close>: the remaining points are visited in order, and
  \<open>anomalies\<close> is the array built so far (\<open>push\<close> appends).
\<close>

fun detectOutliers_loop ::
  "Statistics \<Rightarrow> AnomalyDetectionConfig \<Rightarrow> real \<Rightarrow> real \<Rightarrow>
   TimeSeriesDataPoint list \<Rightarrow> Anomaly list \<Rightarrow> Anomaly list" where
  "detectOutliers_loop stats config upperBound lowerBound [] anomalies = anomalies"
| "detectOutliers_loop stats config upperBound lowerBound (point # rest) anomalies =
     (let v = pvalue point in
      if v > upperBound then
        let deviationPercentage = js_times (js_div (v - mean stats) (mean stats)) 100;
            severity = getSeverity deviationPercentage (sensitivityLevel config)
        in detectOutliers_loop stats config upperBound lowerBound rest
             (anomalies @
              [\<lparr>dataPoint = point, anomalyType = Spike, severity = severity,
                expectedValue = mean stats,
                deviationPercentage = js_abs deviationPercentage\<rparr>])
      else if v < lowerBound \<and> lowerBound > 0 then
        let deviationPercentage = js_times (js_div (mean stats - v) (mean stats)) 100;
            severity = getSeverity deviationPercentage (sensitivityLevel config)
        in detectOutliers_loop stats config upperBound lowerBound rest
             (anomalies @
              [\<lparr>dataPoint = point, anomalyType = Drop, severity = severity,
                expectedValue = mean stats,
                deviationPercentage = js_abs deviationPercentage\<rparr>])
      else detectOutliers_loop stats config upperBound lowerBound rest anomalies)"

definition detectOutliers ::
  "TimeSeriesDataPoint list \<Rightarrow> AnomalyDetectionConfig \<Rightarrow> Anomaly list" where
  "detectOutliers data config =
     (if real (length data) < minDataPoints config then []
      else
        let values = map pvalue data;
            stats = calculateStatistics values
        in if stddev stats = 0 then []
           else
             let upperBound = mean stats + stddevThreshold config * stddev stats;
                 lowerBound = mean stats - stddevThreshold config * stddev stats
             in detectOutliers_loop stats config upperBound lowerBound data [])"

text \<open>
  The loop of \<open>detectTrendAnomalies\<close> runs over \<open>i = 2, 3, ...\<close>; the list argument is
  \<open>data[i - 2], data[i - 1], data[i], ...\<close>.
\<close>

fun detectTrendAnomalies_loop ::
  "AnomalyDetectionConfig \<Rightarrow> TimeSeriesDataPoint list \<Rightarrow> Anomaly list \<Rightarrow> Anomaly list" where
  "detectTrendAnomalies_loop config (p2 # p1 # p # rest) anomalies =
     (let current = pvalue p;
          prev1 = pvalue p1;
          prev2 = pvalue p2;
          avgPrev = (prev1 + prev2) / 2
      in if avgPrev = 0 then detectTrendAnomalies_loop config (p1 # p # rest) anomalies
         else
           let changePercentage = ((current - avgPrev) / avgPrev) * 100;
               threshold = js_div 50 (sensitivityLevel config)
           in if js_gt (Fin \<bar>changePercentage\<bar>) threshold then
                let anomalyType = (if changePercentage > 0 then Spike else Drop);
                    severity = getSeverity (Fin \<bar>changePercentage\<bar>) (sensitivityLevel config)
                in detectTrendAnomalies_loop config (p1 # p # rest)
                     (anomalies @
                      [\<lparr>dataPoint = p, anomalyType = anomalyType, severity = severity,
                        expectedValue = avgPrev,
                        deviationPercentage = Fin \<bar>changePercentage\<bar>\<rparr>])
              else detectTrendAnomalies_loop config (p1 # p # rest) anomalies)"
| "detectTrendAnomalies_loop config ps anomalies = anomalies"

definition detectTrendAnomalies ::
  "TimeSeriesDataPoint list \<Rightarrow> AnomalyDetectionConfig \<Rightarrow> Anomaly list" where
  "detectTrendAnomalies data config =
     (if real (length data) < minDataPoints config + 2 then []
      else detectTrendAnomalies_loop config data [])"


text \<open>
  A JavaScript \<open>Map\<close> keeps its keys in the order of their first insertion; setting a
  key that is present replaces the value in place.  It is modelled as the list of its
  entries in iteration order.
\<close>

fun map_set :: "('k \<times> 'v) list \<Rightarrow> 'k \<Rightarrow> 'v \<Rightarrow> ('k \<times> 'v) list" where
  "map_set [] k v = [(k, v)]"
| "map_set ((k', v') # m) k v = (if k' = k then (k, v) # m else (k', v') # map_set m k v)"

text \<open>\<open>new Map(entries)\<close> and \<open>Array.from(m.values())\<close>.\<close>

definition new_Map :: "('k \<times> 'v) list \<Rightarrow> ('k \<times> 'v) list" where
  "new_Map entries = foldl (\<lambda>m (k, v). map_set m k v) [] entries"

definition map_values :: "('k \<times> 'v) list \<Rightarrow> 'v list" where
  "map_values m = map snd m"

text \<open>
  \<open>allAnomalies.map((a) => [a.dataPoint.timestamp.toISOString(), a])\<close>: the first invalid
  timestamp makes \<open>toISOString\<close> throw.
\<close>

fun anomaly_entries :: "Anomaly list \<Rightarrow> error + (int \<times> Anomaly) list" where
  "anomaly_entries [] = Inr []"
| "anomaly_entries (a # rest) =
     (case toISOString (timestamp (dataPoint a)) of
        Inl e \<Rightarrow> Inl e
      | Inr k \<Rightarrow> (case anomaly_entries rest of
                    Inl e \<Rightarrow> Inl e
                  | Inr es \<Rightarrow> Inr ((k, a) # es)))"

text \<open>The value of \<open>uniqueAnomalies\<close> in \<open>detectAnomalies\<close>, from the results of the two passes.\<close>

definition uniqueAnomalies :: "Anomaly list \<Rightarrow> Anomaly list \<Rightarrow> error + Anomaly list" where
  "uniqueAnomalies outlierAnomalies trendAnomalies =
     (let allAnomalies = outlierAnomalies @ trendAnomalies in
      case anomaly_entries allAnomalies of
        Inl e \<Rightarrow> Inl e
      | Inr es \<Rightarrow> Inr (map_values (new_Map es)))"

text \<open>The row handed to \<open>insertAnomalyResult\<close>.\<close>

record AnomalyMetadata =
  md_count :: real
  detection_method :: string
  sensitivity_level :: real

record AnomalyResult =
  tenant_id :: string
  event_type :: string
  detected_at :: date
  anomaly_type :: AnomalyType
  result_severity :: AnomalySeverity
  metric_value :: real
  expected_value :: real
  deviation_percentage :: jsnum
  threshold_used :: real
  metadata :: AnomalyMetadata
  acknowledged :: bool
  acknowledged_by :: "string option"
  acknowledged_at :: "date option"

text \<open>
  \<open>detectAnomalies\<close>, with \<open>fullConfig\<close> (the defaults overridden by the caller's
  configuration) as its argument; the result is the list of rows inserted, in order, or the
  error thrown before the first insertion.
\<close>

definition detectAnomalies ::
  "string \<Rightarrow> string \<Rightarrow> TimeSeriesDataPoint list \<Rightarrow> AnomalyDetectionConfig \<Rightarrow>
   error + AnomalyResult list" where
  "detectAnomalies tenantId eventType data fullConfig =
     (if real (length data) < minDataPoints fullConfig then Inr []
      else
        let outlierAnomalies = detectOutliers data fullConfig;
            trendAnomalies = detectTrendAnomalies data fullConfig
        in case uniqueAnomalies outlierAnomalies trendAnomalies of
             Inl e \<Rightarrow> Inl e
           | Inr unique \<Rightarrow>
               Inr (map (\<lambda>anomaly.
                      \<lparr>tenant_id = tenantId,
                       event_type = eventType,
                       detected_at = timestamp (dataPoint anomaly),
                       anomaly_type = anomalyType anomaly,
                       result_severity = severity anomaly,
                       metric_value = pvalue (dataPoint anomaly),
                       expected_value = expectedValue anomaly,
                       deviation_percentage = deviationPercentage anomaly,
                       threshold_used = stddevThreshold fullConfig,
                       metadata = \<lparr>md_count = pcount (dataPoint anomaly),
                                   detection_method = ''statistical'',
                                   sensitivity_level = sensitivityLevel fullConfig\<rparr>,
                       acknowledged = False,
                       acknowledged_by = None,
                       acknowledged_at = None\<rparr>) unique))"


subsection \<open>Vocabulary for the properties of the two passes\<close>



definition outlier_finding ::
  "Statistics \<Rightarrow> AnomalyDetectionConfig \<Rightarrow> AnomalyType \<Rightarrow> TimeSeriesDataPoint \<Rightarrow> Anomaly" where
  "outlier_finding stats config ty point =
     (let signed = (if ty = Spike then pvalue point - mean stats else mean stats - pvalue point);
          dp = js_times (js_div signed (mean stats)) 100
      in \<lparr>dataPoint = point, anomalyType = ty,
          severity = getSeverity dp (sensitivityLevel config),
          expectedValue = mean stats, deviationPercentage = js_abs dp\<rparr>)"


text \<open>The time value of a finding's timestamp (\<open>0\<close> stands in for the invalid date).\<close>

definition time_value :: "Anomaly \<Rightarrow> int" where
  "time_value a = (case timestamp (dataPoint a) of Date ms \<Rightarrow> ms | InvalidDate \<Rightarrow> 0)"


section \<open>Sample inputs\<close>

text \<open>The default configuration, with the sensitivity at its fallback \<open>3\<close>.\<close>

definition DEFAULT_CONFIG :: AnomalyDetectionConfig where
  "DEFAULT_CONFIG = \<lparr>sensitivityLevel = 3, minDataPoints = 10, stddevThreshold = 2.5\<rparr>"

text \<open>An hourly series with the given values, starting at the epoch.\<close>

definition hourly :: "real list \<Rightarrow> TimeSeriesDataPoint list" where
  "hourly vs =
     map (\<lambda>(i, v). \<lparr>timestamp = Date (3600000 * int i), pvalue = v, pcount = 1\<rparr>)
       (zip [0 ..< length vs] vs)"



text \<open>Sixteen values of 100 followed by 1800: mean 200, standard deviation 400.\<close>

definition spike_series :: "TimeSeriesDataPoint list" where
  "spike_series =
     hourly [100, 100, 100, 100, 100, 100, 100, 100, 100, 100, 100, 100, 100, 100, 100, 100, 1800]"









text \<open>
  A runtime for the examples.  It reads the strings \<open>42\<close>, \<open>3.14\<close> and the empty string
  as numbers and \<open>2024-01-15\<close> as a date, as ECMAScript does, and no other string; the
  examples convert no number and no date to a string.
\<close>

definition sample_runtime :: runtime where
  "sample_runtime =
     \<lparr>stringToNumber =
        (\<lambda>s. if s = ''42'' then Fin 42 else if s = ''3.14'' then Fin (314 / 100)
              else if s = '''' then Fin 0 else NaN),
      numberToString = (\<lambda>n. ''NaN''),
      parseDate = (\<lambda>s. if s = ''2024-01-15'' then Date 1705276800000 else InvalidDate),
      dateToString = (\<lambda>d. ''Invalid Date''),
      now = 1700000000000\<rparr>"

text \<open>The columns and the inferred schema of the documented sample file, and two of its rows.\<close>

definition sample_columns :: "string list" where
  "sample_columns = [''timestamp'', ''event_type'', ''value'', ''user_id'', ''region'']"

definition sample_schema :: "string \<rightharpoonup> string" where
  "sample_schema =
     [''timestamp'' \<mapsto> ''timestamp'', ''event_type'' \<mapsto> ''string'', ''value'' \<mapsto> ''integer'',
      ''user_id'' \<mapsto> ''string'', ''region'' \<mapsto> ''string'']"

definition sample_rows :: "csv_row list" where
  "sample_rows =
     [[''timestamp'' \<mapsto> JStr ''2024-01-15'', ''event_type'' \<mapsto> JStr ''page_view'',
       ''user_id'' \<mapsto> JStr ''u1'', ''region'' \<mapsto> JStr ''eu''],
      [''timestamp'' \<mapsto> JStr ''2024-01-15'', ''event_type'' \<mapsto> JStr ''signup'',
       ''user_id'' \<mapsto> JStr ''u2'', ''region'' \<mapsto> JStr ''us'']]"

text \<open>The sample columns without the value column.\<close>

definition columns_without_value :: "string list" where
  "columns_without_value = [''timestamp'', ''event_type'', ''user_id'', ''region'']"

text \<open>
  Three events of one tenant and type: two in the first hour after the epoch, with the
  values 1 and 3, and one in the second hour, with the value 5.
\<close>

definition sample_events :: "AnalyticsEvent list" where
  "sample_events =
     [\<lparr>ev_tenant_id = ''t1'', ev_event_type = ''purchase'', event_timestamp = 60000,
       ev_metric_value = Some 1\<rparr>,
      \<lparr>ev_tenant_id = ''t1'', ev_event_type = ''purchase'', event_timestamp = 120000,
       ev_metric_value = Some 3\<rparr>,
      \<lparr>ev_tenant_id = ''t1'', ev_event_type = ''purchase'', event_timestamp = 3660000,
       ev_metric_value = Some 5\<rparr>]"


section \<open>Type inference and normalisation of cells\<close>


lemma trim_eval:
  "trim '' 3.14 '' = ''3.14''" "trim ''42'' = ''42''" "trim ''   '' = ''''"
  by (simp_all add: trim_def is_space_def)


text \<open>
  A cell of white space only is not empty, and \<open>Number\<close> reads its trimmed string, the
  empty one, as 0; the source's test that the trimmed string is not empty keeps it from the
  numeric types.
\<close>

lemma inferDataType_blank:
  "inferDataType sample_runtime (JStr ''   '') = ''string''"
  by (simp add: inferDataType_def Let_def js_String_def trim_eval sample_runtime_def isNaN_def
      datePatterns_def matches_whole_def toLowerCase_def)

text \<open>
  C10: \<open>normalizeValue\<close> with the type \<open>boolean\<close> returns null for null, undefined and
  the empty string; for every other value it returns the boolean that is true exactly when
  the lower-cased string form of the value is \<open>true\<close>, \<open>1\<close> or \<open>yes\<close>.
\<close>

theorem normalizeValue_boolean:
  "normalizeValue rt v ''boolean'' =
     (if v = JNull \<or> v = JUndefined \<or> v = JStr '''' then JNull
      else JBool (toLowerCase (js_String rt v) \<in> {''true'', ''1'', ''yes''}))"
  by (simp add: normalizeValue_def Let_def)

theorem normalizeValue_boolean_witness:
  "normalizeValue sample_runtime (JStr ''Yes'') ''boolean'' = JBool True \<and>
   normalizeValue sample_runtime (JStr ''1'') ''boolean'' = JBool True \<and>
   normalizeValue sample_runtime (JStr ''no'') ''boolean'' = JBool False \<and>
   normalizeValue sample_runtime (JBool True) ''boolean'' = JBool True \<and>
   normalizeValue sample_runtime (JStr '''') ''boolean'' = JNull \<and>
   normalizeValue sample_runtime JUndefined ''boolean'' = JNull"
  using normalizeValue_boolean [of sample_runtime "JStr ''Yes''"]
    normalizeValue_boolean [of sample_runtime "JStr ''1''"]
    normalizeValue_boolean [of sample_runtime "JStr ''no''"]
    normalizeValue_boolean [of sample_runtime "JBool True"]
    normalizeValue_boolean [of sample_runtime "JStr ''''"]
    normalizeValue_boolean [of sample_runtime JUndefined]
  by (simp add: js_String_def toLowerCase_def toLowerChar_def)

text \<open>
  C1 (as amended): \<open>normalizeValue\<close> returns null exactly for null, undefined and the
  empty string, and for the types \<open>number\<close> and \<open>integer\<close> when \<open>Number\<close> of the value is
  \<open>NaN\<close>.  For the type \<open>timestamp\<close> a non-empty value is never normalised to null: a
  value that does not parse as a valid date yields the current time (\<open>new Date()\<close>), a
  value that does yields its date.
\<close>

theorem normalizeValue_null:
  "(normalizeValue rt v ty = JNull \<longleftrightarrow>
      v = JNull \<or> v = JUndefined \<or> v = JStr '''' \<or>
      ((ty = ''number'' \<or> ty = ''integer'') \<and> isNaN (js_Number rt v))) \<and>
   (v \<noteq> JNull \<and> v \<noteq> JUndefined \<and> v \<noteq> JStr '''' \<and> ty = ''timestamp'' \<longrightarrow>
      normalizeValue rt v ty =
        (if new_Date rt v = InvalidDate then JDate (Date (now rt)) else JDate (new_Date rt v)))"
  by (auto simp: normalizeValue_def Let_def)

theorem normalizeValue_null_witness:
  "normalizeValue sample_runtime (JStr ''abc'') ''number'' = JNull \<and>
   isNaN (js_Number sample_runtime (JStr ''abc'')) \<and>
   new_Date sample_runtime (JStr ''2024-01-15'') = Date 1705276800000 \<and>
   normalizeValue sample_runtime (JStr ''2024-01-15'') ''timestamp'' = JDate (Date 1705276800000)"
  using normalizeValue_null [of sample_runtime "JStr ''abc''" "''number''"]
    normalizeValue_null [of sample_runtime "JStr ''2024-01-15''" "''timestamp''"]
  by (simp add: js_Number_def new_Date_def sample_runtime_def isNaN_def)

text \<open>
  The string \<open>not-a-date\<close> does not parse as a date; with the type \<open>timestamp\<close> it is
  normalised to the date of the clock, not to null.
\<close>

theorem normalizeValue_timestamp_counterexample:
  "new_Date sample_runtime (JStr ''not-a-date'') = InvalidDate \<and>
   normalizeValue sample_runtime (JStr ''not-a-date'') ''timestamp'' = JDate (Date 1700000000000) \<and>
   normalizeValue sample_runtime (JStr ''not-a-date'') ''timestamp'' \<noteq> JNull"
  by (simp add: normalizeValue_def Let_def new_Date_def sample_runtime_def)


section \<open>The field mapping\<close>

lemma patterns_nonempty:
  "list_ex (\<lambda>p. str_includes (toLowerCase c) p) timestampPatterns \<Longrightarrow> c \<noteq> ''''"
  "list_ex (\<lambda>p. str_includes (toLowerCase c) p) typePatterns \<Longrightarrow> c \<noteq> ''''"
  "list_ex (\<lambda>p. str_includes (toLowerCase c) p) valuePatterns \<Longrightarrow> c \<noteq> ''''"
  by (auto simp: timestampPatterns_def typePatterns_def valuePatterns_def toLowerCase_def)

lemma mapping_inv_step:
  assumes inv: "mapping_inv schema seen m" and c: "c \<notin> set seen"
  shows "\<exists>m'. detectEventMapping_loop schema (c # cs) m = detectEventMapping_loop schema cs m'
              \<and> mapping_inv schema (seen @ [c]) m'"
proof -
  let ?ts = "falsy (timestampColumn m) \<and> schema c = Some ''timestamp''
         \<and> list_ex (\<lambda>p. str_includes (toLowerCase c) p) timestampPatterns"
  let ?et = "falsy (eventTypeColumn m) \<and> schema c = Some ''string''
         \<and> list_ex (\<lambda>p. str_includes (toLowerCase c) p) typePatterns"
  let ?mv = "falsy (metricValueColumn m)
         \<and> (schema c = Some ''number'' \<or> schema c = Some ''integer'')
         \<and> list_ex (\<lambda>p. str_includes (toLowerCase c) p) valuePatterns"
  from inv c have fresh: "c \<notin> set (dimensionColumns m)" "timestampColumn m \<noteq> Some c"
    "eventTypeColumn m \<noteq> Some c" "metricValueColumn m \<noteq> Some c"
    unfolding mapping_inv_def by auto
  have f_ts: "falsy (timestampColumn m) \<Longrightarrow> timestampColumn m = None"
    and f_et: "falsy (eventTypeColumn m) \<Longrightarrow> eventTypeColumn m = None"
    and f_mv: "falsy (metricValueColumn m) \<Longrightarrow> metricValueColumn m = None"
    using inv unfolding mapping_inv_def falsy_def by auto
  consider (ts) ?ts | (et) "\<not> ?ts" ?et | (mv) "\<not> ?ts" "\<not> ?et" ?mv
    | (dim) "\<not> ?ts" "\<not> ?et" "\<not> ?mv" by blast
  then show ?thesis
  proof cases
    case ts
    then have eq: "detectEventMapping_loop schema (c # cs) m =
        detectEventMapping_loop schema cs (m\<lparr>timestampColumn := Some c\<rparr>)"
      by (auto simp: Let_def)
    from ts have none: "timestampColumn m = None" and ne: "c \<noteq> ''''"
      using f_ts patterns_nonempty(1) by auto
    have "mapping_inv schema (seen @ [c]) (m\<lparr>timestampColumn := Some c\<rparr>)"
      using inv fresh none ne ts unfolding mapping_inv_def by auto
    with eq show ?thesis by blast
  next
    case et
    then have eq: "detectEventMapping_loop schema (c # cs) m =
        detectEventMapping_loop schema cs (m\<lparr>eventTypeColumn := Some c\<rparr>)"
      by (auto simp: Let_def)
    from et have none: "eventTypeColumn m = None" and ne: "c \<noteq> ''''"
      using f_et patterns_nonempty(2) by auto
    have "mapping_inv schema (seen @ [c]) (m\<lparr>eventTypeColumn := Some c\<rparr>)"
      using inv fresh none ne et(2) unfolding mapping_inv_def by auto
    with eq show ?thesis by blast
  next
    case mv
    then have eq: "detectEventMapping_loop schema (c # cs) m =
        detectEventMapping_loop schema cs (m\<lparr>metricValueColumn := Some c\<rparr>)"
      by (auto simp: Let_def)
    from mv have none: "metricValueColumn m = None" and ne: "c \<noteq> ''''"
      using f_mv patterns_nonempty(3) by auto
    have "mapping_inv schema (seen @ [c]) (m\<lparr>metricValueColumn := Some c\<rparr>)"
      using inv fresh none ne mv(3) unfolding mapping_inv_def by auto
    with eq show ?thesis by blast
  next
    case dim
    then have eq: "detectEventMapping_loop schema (c # cs) m =
        detectEventMapping_loop schema cs (m\<lparr>dimensionColumns := dimensionColumns m @ [c]\<rparr>)"
      by (auto simp: Let_def)
    have "mapping_inv schema (seen @ [c]) (m\<lparr>dimensionColumns := dimensionColumns m @ [c]\<rparr>)"
      using inv fresh unfolding mapping_inv_def by auto
    with eq show ?thesis by blast
  qed
qed

lemma mapping_inv_loop:
  assumes "mapping_inv schema seen m" and "distinct (seen @ cs)"
  shows "mapping_inv schema (seen @ cs) (detectEventMapping_loop schema cs m)"
  using assms
proof (induction cs arbitrary: seen m)
  case Nil
  then show ?case by simp
next
  case (Cons c cs)
  from Cons.prems have c: "c \<notin> set seen" and d: "distinct ((seen @ [c]) @ cs)" by auto
  from mapping_inv_step [OF Cons.prems(1) c, of cs]
  obtain m' where eq: "detectEventMapping_loop schema (c # cs) m = detectEventMapping_loop schema cs m'"
    and inv': "mapping_inv schema (seen @ [c]) m'" by blast
  from Cons.IH [OF inv' d] show ?case unfolding eq by simp
qed

text \<open>
  After the two fallbacks: the mapping is some \<open>m1\<close>, with the sentinel in place of an
  absent event type, whose dimensions and roles partition the columns and whose roles
  have the schema types they ask for.
\<close>

lemma detectEventMapping_typed:
  assumes "distinct columns"
  shows "\<exists>m1. detectEventMapping columns schema =
           (if eventTypeColumn m1 = None then m1\<lparr>eventTypeColumn := Some ''default_event''\<rparr> else m1) \<and>
         distinct (dimensionColumns m1) \<and>
         set (dimensionColumns m1) \<union>
           (set_option (timestampColumn m1) \<union> set_option (eventTypeColumn m1) \<union>
            set_option (metricValueColumn m1)) = set columns \<and>
         set (dimensionColumns m1) \<inter>
           (set_option (timestampColumn m1) \<union> set_option (eventTypeColumn m1) \<union>
            set_option (metricValueColumn m1)) = {} \<and>
         (\<forall>c. timestampColumn m1 = Some c \<longrightarrow> schema c = Some ''timestamp'') \<and>
         (\<forall>c. eventTypeColumn m1 = Some c \<longrightarrow> schema c = Some ''string'') \<and>
         (\<forall>c. metricValueColumn m1 = Some c \<longrightarrow>
            schema c = Some ''number'' \<or> schema c = Some ''integer'')"
proof -
  define init where "init = \<lparr>eventTypeColumn = None, timestampColumn = None,
    metricValueColumn = None, dimensionColumns = []\<rparr>"
  define m0 where "m0 = detectEventMapping_loop schema columns init"
  define tcols where "tcols = filter (\<lambda>c. schema c = Some ''timestamp'') columns"
  define m1 where "m1 =
    (if falsy (timestampColumn m0) then
       if length tcols > 0 then
         m0\<lparr>timestampColumn := Some (hd tcols),
            dimensionColumns := filter (\<lambda>c. c \<noteq> hd tcols) (dimensionColumns m0)\<rparr>
       else m0
     else m0)"
  have "mapping_inv schema [] init" by (simp add: mapping_inv_def init_def)
  from mapping_inv_loop [OF this, of columns] assms
  have inv0: "mapping_inv schema columns m0" by (simp add: m0_def)
  have et_falsy: "falsy (eventTypeColumn m1) \<longleftrightarrow> eventTypeColumn m1 = None"
    using inv0 by (auto simp: m1_def mapping_inv_def falsy_def)
  have eq: "detectEventMapping columns schema =
      (if eventTypeColumn m1 = None then m1\<lparr>eventTypeColumn := Some ''default_event''\<rparr> else m1)"
    unfolding detectEventMapping_def Let_def
    by (simp only: init_def [symmetric] m0_def [symmetric] tcols_def [symmetric]
          m1_def [symmetric] et_falsy)
  have props: "distinct (dimensionColumns m1) \<and>
         set (dimensionColumns m1) \<union>
           (set_option (timestampColumn m1) \<union> set_option (eventTypeColumn m1) \<union>
            set_option (metricValueColumn m1)) = set columns \<and>
         set (dimensionColumns m1) \<inter>
           (set_option (timestampColumn m1) \<union> set_option (eventTypeColumn m1) \<union>
            set_option (metricValueColumn m1)) = {} \<and>
         (\<forall>c. timestampColumn m1 = Some c \<longrightarrow> schema c = Some ''timestamp'') \<and>
         (\<forall>c. eventTypeColumn m1 = Some c \<longrightarrow> schema c = Some ''string'') \<and>
         (\<forall>c. metricValueColumn m1 = Some c \<longrightarrow>
            schema c = Some ''number'' \<or> schema c = Some ''integer'')"
  proof (cases "falsy (timestampColumn m0) \<and> length tcols > 0")
    case False
    then have "m1 = m0" by (auto simp: m1_def)
    with inv0 show ?thesis unfolding mapping_inv_def by auto
  next
    case True
    then have m1: "m1 = m0\<lparr>timestampColumn := Some (hd tcols),
            dimensionColumns := filter (\<lambda>c. c \<noteq> hd tcols) (dimensionColumns m0)\<rparr>"
      by (simp add: m1_def)
    from True inv0 have none: "timestampColumn m0 = None"
      by (auto simp: mapping_inv_def falsy_def)
    from True have "hd tcols \<in> set tcols" by simp
    then have h: "hd tcols \<in> set columns" "schema (hd tcols) = Some ''timestamp''"
      by (simp_all add: tcols_def)
    have not_role: "eventTypeColumn m0 \<noteq> Some (hd tcols)" "metricValueColumn m0 \<noteq> Some (hd tcols)"
      using inv0 h(2) unfolding mapping_inv_def by auto
    have U: "set (dimensionColumns m0) \<union>
        (set_option (timestampColumn m0) \<union> set_option (eventTypeColumn m0) \<union>
         set_option (metricValueColumn m0)) = set columns"
      and D: "set (dimensionColumns m0) \<inter>
        (set_option (timestampColumn m0) \<union> set_option (eventTypeColumn m0) \<union>
         set_option (metricValueColumn m0)) = {}"
      and dist: "distinct (dimensionColumns m0)"
      and ty: "\<forall>c. eventTypeColumn m0 = Some c \<longrightarrow> schema c = Some ''string''"
        "\<forall>c. metricValueColumn m0 = Some c \<longrightarrow>
            schema c = Some ''number'' \<or> schema c = Some ''integer''"
      using inv0 unfolding mapping_inv_def by blast+
    have not_in: "hd tcols \<notin> set_option (timestampColumn m0) \<union>
        set_option (eventTypeColumn m0) \<union> set_option (metricValueColumn m0)"
      using none not_role by simp
    with U h(1) have in_dims: "hd tcols \<in> set (dimensionColumns m0)" by blast
    have s1: "set (filter (\<lambda>c. c \<noteq> hd tcols) (dimensionColumns m0)) =
        set (dimensionColumns m0) - {hd tcols}" by auto
    have r1: "set_option (timestampColumn m1) \<union> set_option (eventTypeColumn m1) \<union>
         set_option (metricValueColumn m1) =
         insert (hd tcols) (set_option (eventTypeColumn m0) \<union> set_option (metricValueColumn m0))"
      unfolding m1 by simp
    have U0: "set (dimensionColumns m0) \<union>
        (set_option (eventTypeColumn m0) \<union> set_option (metricValueColumn m0)) = set columns"
      and D0: "set (dimensionColumns m0) \<inter>
        (set_option (eventTypeColumn m0) \<union> set_option (metricValueColumn m0)) = {}"
      using U D none by simp_all
    have d1: "dimensionColumns m1 = filter (\<lambda>c. c \<noteq> hd tcols) (dimensionColumns m0)"
      unfolding m1 by simp
    have "set (dimensionColumns m1) \<union> (set_option (timestampColumn m1) \<union>
        set_option (eventTypeColumn m1) \<union> set_option (metricValueColumn m1)) = set columns"
      unfolding r1 d1 s1 using U0 in_dims by blast
    moreover have "set (dimensionColumns m1) \<inter> (set_option (timestampColumn m1) \<union>
        set_option (eventTypeColumn m1) \<union> set_option (metricValueColumn m1)) = {}"
      unfolding r1 d1 s1 using D0 by blast
    moreover have "distinct (dimensionColumns m1)" unfolding d1 using dist by simp
    moreover have "\<forall>c. timestampColumn m1 = Some c \<longrightarrow> schema c = Some ''timestamp''"
      unfolding m1 using h(2) by simp
    moreover have "\<forall>c. eventTypeColumn m1 = Some c \<longrightarrow> schema c = Some ''string''"
      unfolding m1 using ty(1) by simp
    moreover have "\<forall>c. metricValueColumn m1 = Some c \<longrightarrow>
            schema c = Some ''number'' \<or> schema c = Some ''integer''"
      unfolding m1 using ty(2) by simp
    ultimately show ?thesis by blast
  qed
  from eq props show ?thesis by blast
qed

text \<open>
  C7 (as amended): for every list of pairwise different column names, none of which is the
  sentinel \<open>default_event\<close>, and every schema, no column is assigned to two of the three
  roles, and the dimension columns together with the columns assigned to a role partition
  the columns: the dimension columns are pairwise different, their union with the role
  columns is the set of all columns, and no column is both.
\<close>

theorem detectEventMapping_partition:
  assumes "distinct columns" and "''default_event'' \<notin> set columns"
  shows "(\<forall>c \<in> set columns.
            \<not> (timestampColumn (detectEventMapping columns schema) = Some c \<and>
               eventTypeColumn (detectEventMapping columns schema) = Some c) \<and>
            \<not> (timestampColumn (detectEventMapping columns schema) = Some c \<and>
               metricValueColumn (detectEventMapping columns schema) = Some c) \<and>
            \<not> (eventTypeColumn (detectEventMapping columns schema) = Some c \<and>
               metricValueColumn (detectEventMapping columns schema) = Some c)) \<and>
         distinct (dimensionColumns (detectEventMapping columns schema)) \<and>
         set (dimensionColumns (detectEventMapping columns schema)) \<union>
           role_columns (detectEventMapping columns schema) columns = set columns \<and>
         set (dimensionColumns (detectEventMapping columns schema)) \<inter>
           role_columns (detectEventMapping columns schema) columns = {}"
proof -
  from detectEventMapping_typed [OF assms(1), of schema]
  obtain m1 where eq: "detectEventMapping columns schema =
           (if eventTypeColumn m1 = None then m1\<lparr>eventTypeColumn := Some ''default_event''\<rparr> else m1)"
    and dist: "distinct (dimensionColumns m1)"
    and U: "set (dimensionColumns m1) \<union>
           (set_option (timestampColumn m1) \<union> set_option (eventTypeColumn m1) \<union>
            set_option (metricValueColumn m1)) = set columns"
    and D: "set (dimensionColumns m1) \<inter>
           (set_option (timestampColumn m1) \<union> set_option (eventTypeColumn m1) \<union>
            set_option (metricValueColumn m1)) = {}"
    and ts: "\<forall>c. timestampColumn m1 = Some c \<longrightarrow> schema c = Some ''timestamp''"
    and et: "\<forall>c. eventTypeColumn m1 = Some c \<longrightarrow> schema c = Some ''string''"
    and mv: "\<forall>c. metricValueColumn m1 = Some c \<longrightarrow>
            schema c = Some ''number'' \<or> schema c = Some ''integer''"
    by blast
  let ?m = "detectEventMapping columns schema"
  have sel: "timestampColumn ?m = timestampColumn m1" "metricValueColumn ?m = metricValueColumn m1"
    "dimensionColumns ?m = dimensionColumns m1"
    "eventTypeColumn ?m = (if eventTypeColumn m1 = None then Some ''default_event'' else eventTypeColumn m1)"
    unfolding eq by simp_all
  have roles: "role_columns ?m columns =
      set_option (timestampColumn m1) \<union> set_option (eventTypeColumn m1) \<union>
      set_option (metricValueColumn m1)"
  proof -
    have sub: "set_option (timestampColumn m1) \<union> set_option (eventTypeColumn m1) \<union>
      set_option (metricValueColumn m1) \<subseteq> set columns" using U by blast
    show ?thesis
      unfolding role_columns_def sel using sub assms(2)
      by (cases "eventTypeColumn m1") auto
  qed
  have excl: "\<forall>c \<in> set columns.
            \<not> (timestampColumn ?m = Some c \<and> eventTypeColumn ?m = Some c) \<and>
            \<not> (timestampColumn ?m = Some c \<and> metricValueColumn ?m = Some c) \<and>
            \<not> (eventTypeColumn ?m = Some c \<and> metricValueColumn ?m = Some c)"
    unfolding sel using ts et mv assms(2) by (cases "eventTypeColumn m1") auto
  show ?thesis
    using excl dist U D unfolding roles sel(3) by blast
qed

lemmas mapping_eval =
  detectEventMapping_def Let_def falsy_def toLowerCase_def toLowerChar_def
  timestampPatterns_def typePatterns_def valuePatterns_def

lemma sample_mapping:
  "detectEventMapping sample_columns sample_schema =
     \<lparr>eventTypeColumn = Some ''event_type'', timestampColumn = Some ''timestamp'',
      metricValueColumn = Some ''value'', dimensionColumns = [''user_id'', ''region'']\<rparr>"
  by (simp add: sample_columns_def sample_schema_def mapping_eval)

theorem detectEventMapping_partition_witness:
  "distinct sample_columns \<and> ''default_event'' \<notin> set sample_columns \<and>
   detectEventMapping sample_columns sample_schema =
     \<lparr>eventTypeColumn = Some ''event_type'', timestampColumn = Some ''timestamp'',
      metricValueColumn = Some ''value'', dimensionColumns = [''user_id'', ''region'']\<rparr> \<and>
   role_columns (detectEventMapping sample_columns sample_schema) sample_columns =
     {''timestamp'', ''event_type'', ''value''} \<and>
   set (dimensionColumns (detectEventMapping sample_columns sample_schema)) \<union>
     role_columns (detectEventMapping sample_columns sample_schema) sample_columns =
     set sample_columns"
proof -
  have d: "distinct sample_columns" "''default_event'' \<notin> set sample_columns"
    by (simp_all add: sample_columns_def)
  have r: "role_columns (detectEventMapping sample_columns sample_schema) sample_columns =
     {''timestamp'', ''event_type'', ''value''}"
    unfolding sample_mapping by (auto simp: role_columns_def sample_columns_def)
  from detectEventMapping_partition [OF d, of sample_schema] d r sample_mapping
  show ?thesis by blast
qed

text \<open>
  When the name \<open>type\<close> occurs twice, its first occurrence is the event type and its
  second a dimension, so that the column \<open>type\<close> is both.  A column named \<open>default_event\<close>
  of type \<open>timestamp\<close> is the timestamp by the fallback, and the sentinel makes the same
  name the event type.
\<close>

theorem detectEventMapping_partition_counterexample:
  "detectEventMapping [''type'', ''type''] [''type'' \<mapsto> ''string''] =
     \<lparr>eventTypeColumn = Some ''type'', timestampColumn = None, metricValueColumn = None,
      dimensionColumns = [''type'']\<rparr> \<and>
   detectEventMapping [''default_event''] [''default_event'' \<mapsto> ''timestamp''] =
     \<lparr>eventTypeColumn = Some ''default_event'', timestampColumn = Some ''default_event'',
      metricValueColumn = None, dimensionColumns = []\<rparr>"
  by (simp add: mapping_eval)


section \<open>Validation against the required columns\<close>

lemma find_falsy:
  assumes "\<And>c. P c \<Longrightarrow> c \<noteq> ''''"
  shows "falsy (find P columns) \<longleftrightarrow> \<not> (\<exists>c \<in> set columns. P c)"
proof (cases "find P columns")
  case None
  then show ?thesis by (auto simp: falsy_def find_None_iff)
next
  case (Some c)
  then have "P c" "c \<in> set columns" by (auto simp: find_Some_iff)
  with assms Some show ?thesis by (auto simp: falsy_def)
qed

lemma alias_nonempty:
  "toLowerCase c \<in> set timestampAliases \<Longrightarrow> c \<noteq> ''''"
  "toLowerCase c \<in> set eventTypeAliases \<Longrightarrow> c \<noteq> ''''"
  "toLowerCase c \<in> set valueAliases \<Longrightarrow> c \<noteq> ''''"
  by (auto simp: timestampAliases_def eventTypeAliases_def valueAliases_def toLowerCase_def)

lemma missingColumns_eq:
  "(if falsy (find (\<lambda>c. toLowerCase c \<in> set timestampAliases) columns) then [''timestamp''] else []) @
   (if falsy (find (\<lambda>c. toLowerCase c \<in> set eventTypeAliases) columns) then [''event_type''] else []) @
   (if falsy (find (\<lambda>c. toLowerCase c \<in> set valueAliases) columns) then [''value''] else [])
   = missing_roles columns"
  unfolding missing_roles_def
  by (simp only: find_falsy [of "\<lambda>c. toLowerCase c \<in> set timestampAliases", OF alias_nonempty(1)]
        find_falsy [of "\<lambda>c. toLowerCase c \<in> set eventTypeAliases", OF alias_nonempty(2)]
        find_falsy [of "\<lambda>c. toLowerCase c \<in> set valueAliases", OF alias_nonempty(3)])

text \<open>
  C3: if, for one of the three required roles, no column has its lower-cased name among
  the aliases of the role, \<open>validateCSVData\<close> returns \<open>valid = false\<close>, no valid row and
  exactly one error, of row 0 and field \<open>schema\<close>, whose message lists the missing roles;
  the result depends on the rows through their number only, which the summary reports.
\<close>

theorem validateCSVData_missing_role:
  assumes "\<not> (\<exists>c \<in> set columns. toLowerCase c \<in> set timestampAliases) \<or>
           \<not> (\<exists>c \<in> set columns. toLowerCase c \<in> set eventTypeAliases) \<or>
           \<not> (\<exists>c \<in> set columns. toLowerCase c \<in> set valueAliases)"
  shows "validateCSVData rt data columns =
           \<lparr>valid = False,
            validRows = [],
            errors =
              [\<lparr>row = 0, field = ''schema'',
                message =
                  ''Missing required columns: '' @ join '', '' (missing_roles columns) @ ''. '' @
                  ''Expected: timestamp (or time/date), event_type (or type/event), value (or amount/metric).''\<rparr>],
            summary = \<lparr>totalRows = length data, validRowCount = 0,
                        invalidRowCount = length data\<rparr>\<rparr>"
proof -
  from assms have "missing_roles columns \<noteq> []"
    unfolding missing_roles_def by auto
  then have pos: "length (missing_roles columns) > 0" by simp
  show ?thesis
    unfolding validateCSVData_def Let_def missingColumns_eq
    using pos by (simp only: if_True)
qed

lemma missing_value_role: "missing_roles columns_without_value = [''value'']"
  by (simp add: missing_roles_def columns_without_value_def toLowerCase_def toLowerChar_def
        timestampAliases_def eventTypeAliases_def valueAliases_def)

theorem validateCSVData_missing_role_witness:
  "\<not> (\<exists>c \<in> set columns_without_value. toLowerCase c \<in> set valueAliases) \<and>
   length sample_rows = 2 \<and>
   validateCSVData sample_runtime sample_rows columns_without_value =
     \<lparr>valid = False,
      validRows = [],
      errors =
        [\<lparr>row = 0, field = ''schema'',
          message =
            ''Missing required columns: value. Expected: timestamp (or time/date), event_type (or type/event), value (or amount/metric).''\<rparr>],
      summary = \<lparr>totalRows = 2, validRowCount = 0, invalidRowCount = 2\<rparr>\<rparr>"
proof -
  have h: "\<not> (\<exists>c \<in> set columns_without_value. toLowerCase c \<in> set valueAliases)"
    by (simp add: columns_without_value_def toLowerCase_def toLowerChar_def valueAliases_def)
  then have "\<not> (\<exists>c \<in> set columns_without_value. toLowerCase c \<in> set timestampAliases) \<or>
           \<not> (\<exists>c \<in> set columns_without_value. toLowerCase c \<in> set eventTypeAliases) \<or>
           \<not> (\<exists>c \<in> set columns_without_value. toLowerCase c \<in> set valueAliases)" by blast
  from validateCSVData_missing_role [OF this, of sample_runtime sample_rows] h
  show ?thesis by (simp add: missing_value_role sample_rows_def)
qed


section \<open>The standard deviation of a bucket\<close>

lemma sum_squared_deviations:
  "sum_list (map (\<lambda>v. (v - m) ^ 2) vs) =
     sum_list (map (\<lambda>x. x ^ 2) vs) - 2 * m * sum_list vs + real (length vs) * m ^ 2"
  by (induction vs) (simp_all add: power2_eq_square algebra_simps)

lemma squared_deviations_alt:
  assumes "vs \<noteq> []"
  shows "squared_deviations vs =
           (real (length vs) * sum_list (map (\<lambda>x. x ^ 2) vs) - (sum_list vs) ^ 2) / real (length vs)"
proof -
  from assms have n: "real (length vs) \<noteq> 0" by simp
  show ?thesis
    unfolding squared_deviations_def sum_squared_deviations
    using n by (simp add: power2_eq_square field_simps)
qed

lemma SQL_STDDEV_sample: "SQL_STDDEV xs = sample_stddev (non_null xs)"
proof (cases "length (non_null xs) < 2")
  case True
  then show ?thesis by (simp add: SQL_STDDEV_def sample_stddev_def Let_def)
next
  case False
  then have ne: "non_null xs \<noteq> []" by auto
  from False have n: "real (length (non_null xs)) \<noteq> 0" "real (length (non_null xs)) - 1 \<noteq> 0"
    by auto
  have "(real (length (non_null xs)) * sum_list (map (\<lambda>x. x ^ 2) (non_null xs)) - (sum_list (non_null xs)) ^ 2)
          / (real (length (non_null xs)) * (real (length (non_null xs)) - 1)) =
        squared_deviations (non_null xs) / (real (length (non_null xs)) - 1)"
    unfolding squared_deviations_alt [OF ne] using n by (simp add: field_simps)
  with False show ?thesis by (simp add: SQL_STDDEV_def sample_stddev_def Let_def)
qed

lemma parseFloat_or_null_id: "parseFloat_or_null x = x"
  by (cases x) (simp_all add: parseFloat_or_null_def)

lemma computeAndStoreAggregations_valid:
  "computeAndStoreAggregations events tenantId eventType period (Date s) (Date e) =
     Inr (map (\<lambda>k.
            \<lparr>am_tenant_id = tenantId, am_event_type = eventType, aggregation_period = period,
             period_start = Date k, period_end = Date (k + bucket_width period),
             count_events =
               length (filter (\<lambda>ev. date_trunc (bucket_width period) (event_timestamp ev) = k)
                         (matching_events events tenantId eventType s e)),
             sum_value = SQL_SUM (map ev_metric_value
               (filter (\<lambda>ev. date_trunc (bucket_width period) (event_timestamp ev) = k)
                  (matching_events events tenantId eventType s e))),
             avg_value = SQL_AVG (map ev_metric_value
               (filter (\<lambda>ev. date_trunc (bucket_width period) (event_timestamp ev) = k)
                  (matching_events events tenantId eventType s e))),
             min_value = SQL_MIN (map ev_metric_value
               (filter (\<lambda>ev. date_trunc (bucket_width period) (event_timestamp ev) = k)
                  (matching_events events tenantId eventType s e))),
             max_value = SQL_MAX (map ev_metric_value
               (filter (\<lambda>ev. date_trunc (bucket_width period) (event_timestamp ev) = k)
                  (matching_events events tenantId eventType s e))),
             stddev_value = sample_stddev (bucket_values events tenantId eventType period s e k),
             dimensions = []\<rparr>)
          (remdups (map (\<lambda>ev. date_trunc (bucket_width period) (event_timestamp ev))
             (matching_events events tenantId eventType s e))))"
  by (cases period)
     (simp_all add: computeAndStoreAggregations_def computeAggregationByHour_def
        computeAggregationByDay_def computeAggregation_def toISOString_def Let_def
        bucket_width_def bucket_values_def parseFloat_or_null_id SQL_STDDEV_sample o_def)

text \<open>
  C2 (as amended): for every tenant, event type, period and window with valid bounds,
  \<open>computeAndStoreAggregations\<close> produces one metric for each bucket that holds a
  selected event, and the \<open>stddev_value\<close> of the metric of a bucket is the sample standard
  deviation of the non-null metric values of the bucket (the sum of the squared deviations
  from the mean divided by \<open>N - 1\<close>), and null when the bucket has fewer than two of them.
\<close>

theorem computeAndStoreAggregations_stddev:
  "\<exists>metrics.
     computeAndStoreAggregations events tenantId eventType period (Date s) (Date e) = Inr metrics \<and>
     period_start ` set metrics =
       (\<lambda>ev. Date (date_trunc (bucket_width period) (event_timestamp ev))) `
         set (matching_events events tenantId eventType s e) \<and>
     (\<forall>m \<in> set metrics. \<exists>k.
        period_start m = Date k \<and>
        stddev_value m = sample_stddev (bucket_values events tenantId eventType period s e k))"
  unfolding computeAndStoreAggregations_valid
  by (auto simp: image_iff)

lemma sample_matching:
  "matching_events sample_events ''t1'' ''purchase'' 0 7200000 = sample_events"
  by (simp add: matching_events_def sample_events_def)

lemma sample_buckets:
  "bucket_values sample_events ''t1'' ''purchase'' Hour 0 7200000 0 = [1, 3]"
  "bucket_values sample_events ''t1'' ''purchase'' Hour 0 7200000 3600000 = [5]"
  unfolding bucket_values_def sample_matching
  by (simp_all add: sample_events_def bucket_width_def date_trunc_def non_null_def)

lemma sample_stddevs:
  "sample_stddev [1, 3] = Some (sqrt 2)" "sample_stddev [5] = None"
  "population_stddev [1, 3] = Some 1" "population_stddev [5] = Some 0"
  by (simp_all add: sample_stddev_def population_stddev_def squared_deviations_def)

lemma sample_metrics:
  "computeAndStoreAggregations sample_events ''t1'' ''purchase'' Hour (Date 0) (Date 7200000) =
     Inr [\<lparr>am_tenant_id = ''t1'', am_event_type = ''purchase'', aggregation_period = Hour,
            period_start = Date 0, period_end = Date 3600000, count_events = 2,
            sum_value = Some 4, avg_value = Some 2, min_value = Some 1, max_value = Some 3,
            stddev_value = Some (sqrt 2), dimensions = []\<rparr>,
          \<lparr>am_tenant_id = ''t1'', am_event_type = ''purchase'', aggregation_period = Hour,
            period_start = Date 3600000, period_end = Date 7200000, count_events = 1,
            sum_value = Some 5, avg_value = Some 5, min_value = Some 5, max_value = Some 5,
            stddev_value = None, dimensions = []\<rparr>]"
proof -
  have keys: "remdups (map (\<lambda>ev. date_trunc (bucket_width Hour) (event_timestamp ev)) sample_events) =
      [0, 3600000]"
    by (simp add: sample_events_def bucket_width_def date_trunc_def)
  show ?thesis
    unfolding computeAndStoreAggregations_valid sample_matching keys
    by (simp add: sample_buckets [unfolded sample_events_def] sample_stddevs
          sample_events_def bucket_width_def date_trunc_def non_null_def SQL_SUM_def SQL_AVG_def SQL_MIN_def SQL_MAX_def)
qed

theorem computeAndStoreAggregations_stddev_witness:
  "computeAndStoreAggregations sample_events ''t1'' ''purchase'' Hour (Date 0) (Date 7200000) =
     Inr [\<lparr>am_tenant_id = ''t1'', am_event_type = ''purchase'', aggregation_period = Hour,
            period_start = Date 0, period_end = Date 3600000, count_events = 2,
            sum_value = Some 4, avg_value = Some 2, min_value = Some 1, max_value = Some 3,
            stddev_value = Some (sqrt 2), dimensions = []\<rparr>,
          \<lparr>am_tenant_id = ''t1'', am_event_type = ''purchase'', aggregation_period = Hour,
            period_start = Date 3600000, period_end = Date 7200000, count_events = 1,
            sum_value = Some 5, avg_value = Some 5, min_value = Some 5, max_value = Some 5,
            stddev_value = None, dimensions = []\<rparr>] \<and>
   sample_stddev (bucket_values sample_events ''t1'' ''purchase'' Hour 0 7200000 0) = Some (sqrt 2) \<and>
   sample_stddev (bucket_values sample_events ''t1'' ''purchase'' Hour 0 7200000 3600000) = None"
  using computeAndStoreAggregations_stddev [of sample_events "''t1''" "''purchase''" Hour 0 7200000]
  unfolding sample_metrics
  by (simp add: sample_buckets sample_stddevs)

text \<open>
  For the bucket with the values 1 and 3 the stored standard deviation is the square root
  of 2, and the population standard deviation is 1; for the bucket with the single value 5
  the stored value is null, and the population standard deviation is 0.
\<close>

theorem stddev_population_counterexample:
  "computeAndStoreAggregations sample_events ''t1'' ''purchase'' Hour (Date 0) (Date 7200000) =
     Inr [\<lparr>am_tenant_id = ''t1'', am_event_type = ''purchase'', aggregation_period = Hour,
            period_start = Date 0, period_end = Date 3600000, count_events = 2,
            sum_value = Some 4, avg_value = Some 2, min_value = Some 1, max_value = Some 3,
            stddev_value = Some (sqrt 2), dimensions = []\<rparr>,
          \<lparr>am_tenant_id = ''t1'', am_event_type = ''purchase'', aggregation_period = Hour,
            period_start = Date 3600000, period_end = Date 7200000, count_events = 1,
            sum_value = Some 5, avg_value = Some 5, min_value = Some 5, max_value = Some 5,
            stddev_value = None, dimensions = []\<rparr>] \<and>
   population_stddev (bucket_values sample_events ''t1'' ''purchase'' Hour 0 7200000 0) = Some 1 \<and>
   Some (sqrt 2) \<noteq> Some (1 :: real) \<and>
   population_stddev (bucket_values sample_events ''t1'' ''purchase'' Hour 0 7200000 3600000) = Some 0"
  unfolding sample_metrics
  by (simp add: sample_buckets sample_stddevs)


section \<open>Statistics of a series\<close>

lemma foldl_plus: "foldl (\<lambda>sum val. sum + f val) a xs = a + sum_list (map f xs)" for a :: real
  by (induction xs arbitrary: a) simp_all

lemma calc_mean: "values \<noteq> [] \<Longrightarrow> mean (calculateStatistics values) = sum_list values / real (length values)"
  using foldl_plus[of "\<lambda>v. v" 0 "values"] by (simp add: calculateStatistics_def Let_def)

lemma calc_stddev: "values \<noteq> [] \<Longrightarrow> stddev (calculateStatistics values) =
   sqrt (sum_list (map (\<lambda>v. (v - mean (calculateStatistics values)) ^ 2) values) / real (length values))"
  using foldl_plus[of "\<lambda>v. v" 0 "values"] 
  by (simp add: calculateStatistics_def Let_def foldl_plus)


lemma stats_16_1:
  assumes "values = [a, a, a, a, a, a, a, a, a, a, a, a, a, a, a, a, a + 17 * e]"
  shows "mean (calculateStatistics values) = a + e"
    and "stddev (calculateStatistics values) = 4 * \<bar>e\<bar>"
proof -
  have ne: "values \<noteq> []" using assms by simp
  show m: "mean (calculateStatistics values) = a + e"
    unfolding calc_mean [OF ne] by (simp add: assms)
  have "sum_list (map (\<lambda>v. (v - (a + e)) ^ 2) values) / real (length values) = (4 * e) ^ 2"
    by (simp add: assms power2_eq_square algebra_simps)
  then show "stddev (calculateStatistics values) = 4 * \<bar>e\<bar>"
    unfolding calc_stddev [OF ne] m by (simp add: real_sqrt_mult abs_mult)
qed


lemma spike_series_stats:
  "mean (calculateStatistics (map pvalue spike_series)) = 200"
  "stddev (calculateStatistics (map pvalue spike_series)) = 400"
  using stats_16_1 [of "map pvalue spike_series" 100 100]
  by (simp_all add: spike_series_def hourly_def)









text \<open>
  The standard deviation of \<open>calculateStatistics\<close> is the population one: the sum of the
  squared deviations from the mean is divided by the number of values.
\<close>

lemma calculateStatistics_population:
  assumes "values \<noteq> []"
  shows "population_stddev values = Some (stddev (calculateStatistics values))"
  using assms calc_stddev [OF assms] calc_mean [OF assms]
  by (simp add: population_stddev_def squared_deviations_def)


section \<open>The outlier pass\<close>


lemma outlier_finding_sel [simp]:
  "dataPoint (outlier_finding st c ty p) = p"
  "anomalyType (outlier_finding st c ty p) = ty"
  by (simp_all add: outlier_finding_def Let_def)

lemma detectOutliers_unfold:
  "detectOutliers data config =
     (let st = calculateStatistics (map pvalue data) in
      if real (length data) < minDataPoints config \<or> stddev st = 0 then []
      else detectOutliers_loop st config
             (mean st + stddevThreshold config * stddev st)
             (mean st - stddevThreshold config * stddev st) data [])"
  by (simp add: detectOutliers_def Let_def)
















section \<open>Merging the findings of the two passes\<close>

lemma map_of_map_set: "map_of (map_set m k v) = (map_of m)(k \<mapsto> v)"
  by (induction m k v rule: map_set.induct) auto

lemma map_set_distinct: "distinct (map fst m) \<Longrightarrow> distinct (map fst (map_set m k v))"
proof (induction m k v rule: map_set.induct)
  case (1 k v)
  then show ?case by simp
next
  case (2 k' v' m k v)
  have "fst ` set (map_set m k v) = dom (map_of (map_set m k v))"
    by (simp add: dom_map_of_conv_image_fst)
  also have "\<dots> = insert k (fst ` set m)"
    by (simp add: map_of_map_set dom_map_of_conv_image_fst)
  finally show ?case using 2 by auto
qed

lemma foldl_map_set_distinct:
  "distinct (map fst m) \<Longrightarrow> distinct (map fst (foldl (\<lambda>m (k, v). map_set m k v) m es))"
  by (induction es arbitrary: m) (auto simp: map_set_distinct)

lemma foldl_map_set_map_of:
  "map_of (foldl (\<lambda>m (k, v). map_set m k v) m es) = map_of m ++ map_of (rev es)"
  by (induction es arbitrary: m) (auto simp: map_of_map_set)

lemma new_Map_distinct: "distinct (map fst (new_Map es))"
  unfolding new_Map_def by (rule foldl_map_set_distinct) simp

lemma new_Map_map_of: "map_of (new_Map es) = map_of (rev es)"
  unfolding new_Map_def by (simp add: foldl_map_set_map_of)

lemma new_Map_mem: "(k, v) \<in> set (new_Map es) \<longleftrightarrow> map_of (rev es) k = Some v"
  using new_Map_distinct [of es] new_Map_map_of [of es] map_of_eq_Some_iff [of "new_Map es" k v]
  by simp

lemma map_of_rev_keyed:
  "map_of (rev (map (\<lambda>x. (f x, x)) xs)) k =
     (if \<exists>x \<in> set xs. f x = k then Some (last (filter (\<lambda>x. f x = k) xs)) else None)"
  by (induction xs rule: rev_induct) auto

lemma anomaly_entries_Inr:
  "anomaly_entries as = Inr es \<Longrightarrow>
     es = map (\<lambda>a. (time_value a, a)) as \<and> (\<forall>a \<in> set as. timestamp (dataPoint a) = Date (time_value a))"
  by (induction as arbitrary: es)
     (auto simp: toISOString_def time_value_def split: date.splits sum.splits)

lemma anomaly_entries_Inl:
  "anomaly_entries as = Inl e \<Longrightarrow> \<exists>a \<in> set as. timestamp (dataPoint a) = InvalidDate"
  by (induction as) (auto simp: toISOString_def split: date.splits sum.splits)

lemma last_filter_in:
  assumes "\<exists>x \<in> set xs. P x"
  shows "last (filter P xs) \<in> set xs" and "P (last (filter P xs))"
proof -
  from assms have "filter P xs \<noteq> []" by (simp add: filter_empty_conv)
  then have "last (filter P xs) \<in> set (filter P xs)" by (rule last_in_set)
  then show "last (filter P xs) \<in> set xs" and "P (last (filter P xs))" by simp_all
qed

lemma new_Map_keyed_mem:
  "(k, a) \<in> set (new_Map (map (\<lambda>x. (f x, x)) xs)) \<longleftrightarrow>
     (\<exists>x \<in> set xs. f x = k) \<and> a = last (filter (\<lambda>x. f x = k) xs)"
  unfolding new_Map_mem map_of_rev_keyed by (simp split: if_splits) blast

lemma new_Map_keyed_fst:
  "map fst (new_Map (map (\<lambda>x. (f x, x)) xs)) = map f (map snd (new_Map (map (\<lambda>x. (f x, x)) xs)))"
proof -
  have "\<And>p. p \<in> set (new_Map (map (\<lambda>x. (f x, x)) xs)) \<Longrightarrow> fst p = f (snd p)"
  proof -
    fix p assume "p \<in> set (new_Map (map (\<lambda>x. (f x, x)) xs))"
    then have "(fst p, snd p) \<in> set (new_Map (map (\<lambda>x. (f x, x)) xs))" by simp
    then have ex: "\<exists>x \<in> set xs. f x = fst p" and eq: "snd p = last (filter (\<lambda>x. f x = fst p) xs)"
      unfolding new_Map_keyed_mem by simp_all
    from last_filter_in(2) [OF ex] eq show "fst p = f (snd p)" by simp
  qed
  then show ?thesis by simp
qed

lemma new_Map_keyed_values:
  fixes f :: "'a \<Rightarrow> 'k" and xs :: "'a list"
  defines "u \<equiv> map_values (new_Map (map (\<lambda>x. (f x, x)) xs))"
  shows "distinct (map f u)"
    and "f ` set u = f ` set xs"
    and "\<forall>a \<in> set u. a = last (filter (\<lambda>x. f x = f a) xs)"
proof -
  let ?m = "new_Map (map (\<lambda>x. (f x, x)) xs)"
  have fst_eq: "map fst ?m = map f u"
    unfolding u_def map_values_def by (rule new_Map_keyed_fst)
  show "distinct (map f u)"
    using new_Map_distinct [of "map (\<lambda>x. (f x, x)) xs"] unfolding fst_eq .
  have mem_u: "\<And>a. a \<in> set u \<longleftrightarrow> (\<exists>k. (k, a) \<in> set ?m)"
    unfolding u_def map_values_def by force
  show last: "\<forall>a \<in> set u. a = last (filter (\<lambda>x. f x = f a) xs)"
  proof
    fix a assume "a \<in> set u"
    then obtain k where k: "(k, a) \<in> set ?m" using mem_u by blast
    then have ex: "\<exists>x \<in> set xs. f x = k" and eq: "a = last (filter (\<lambda>x. f x = k) xs)"
      unfolding new_Map_keyed_mem by simp_all
    from last_filter_in(2) [OF ex] eq have "f a = k" by simp
    with eq show "a = last (filter (\<lambda>x. f x = f a) xs)" by simp
  qed
  show "f ` set u = f ` set xs"
  proof (intro set_eqI iffI)
    fix k assume "k \<in> f ` set u"
    then obtain a where a: "a \<in> set u" and ka: "k = f a" by blast
    from a last have eq: "a = last (filter (\<lambda>x. f x = f a) xs)" by blast
    from a obtain k' where "(k', a) \<in> set ?m" using mem_u by blast
    then have ex: "\<exists>x \<in> set xs. f x = k'" and eq': "a = last (filter (\<lambda>x. f x = k') xs)"
      unfolding new_Map_keyed_mem by simp_all
    from last_filter_in [OF ex] eq' have "a \<in> set xs" by simp
    then show "k \<in> f ` set xs" using ka by blast
  next
    fix k assume "k \<in> f ` set xs"
    then have ex: "\<exists>x \<in> set xs. f x = k" by blast
    then have "(k, last (filter (\<lambda>x. f x = k) xs)) \<in> set ?m"
      unfolding new_Map_keyed_mem by simp
    then have "last (filter (\<lambda>x. f x = k) xs) \<in> set u" using mem_u by blast
    moreover from last_filter_in(2) [OF ex] have "f (last (filter (\<lambda>x. f x = k) xs)) = k" .
    ultimately show "k \<in> f ` set u" by force
  qed
qed

lemma uniqueAnomalies_Inr:
  assumes "uniqueAnomalies os ts = Inr u"
  shows "\<forall>a \<in> set (os @ ts). timestamp (dataPoint a) \<noteq> InvalidDate"
    and "distinct (map (\<lambda>a. timestamp (dataPoint a)) u)"
    and "(\<lambda>a. timestamp (dataPoint a)) ` set u = (\<lambda>a. timestamp (dataPoint a)) ` (set os \<union> set ts)"
    and "\<forall>a \<in> set u. a = last (filter (\<lambda>b. timestamp (dataPoint b) = timestamp (dataPoint a)) (os @ ts))"
    and "\<forall>a \<in> set u. timestamp (dataPoint a) \<in> (\<lambda>a. timestamp (dataPoint a)) ` set ts \<longrightarrow> a \<in> set ts"
proof -
  let ?all = "os @ ts"
  let ?tk = "\<lambda>a. timestamp (dataPoint a)"
  from assms obtain es where es: "anomaly_entries ?all = Inr es" and u: "u = map_values (new_Map es)"
    by (auto simp: uniqueAnomalies_def Let_def split: sum.splits)
  from anomaly_entries_Inr [OF es]
  have es_eq: "es = map (\<lambda>a. (time_value a, a)) ?all"
    and valid: "\<And>a. a \<in> set ?all \<Longrightarrow> ?tk a = Date (time_value a)"
    by simp_all
  note kv = new_Map_keyed_values [of time_value ?all, folded es_eq, folded u]
  show "\<forall>a \<in> set ?all. ?tk a \<noteq> InvalidDate" using valid by simp
  have u_all: "set u \<subseteq> set ?all"
  proof
    fix a assume a: "a \<in> set u"
    then have "time_value a \<in> time_value ` set ?all" using kv(2) by blast
    then have "\<exists>x \<in> set ?all. time_value x = time_value a" by force
    from last_filter_in(1) [OF this] kv(3) a show "a \<in> set ?all" by simp
  qed
  have tk_u: "map ?tk u = map Date (map time_value u)"
    using u_all valid by (simp add: subset_iff)
  show "distinct (map ?tk u)"
    unfolding tk_u using kv(1) by (simp add: distinct_map inj_on_def)
  have "?tk ` set u = Date ` time_value ` set u"
    using u_all valid by (force simp: subset_iff image_iff)
  also have "\<dots> = Date ` time_value ` set ?all" using kv(2) by simp
  also have "\<dots> = ?tk ` set ?all"
    using valid by (force simp: image_iff)
  finally show "?tk ` set u = ?tk ` (set os \<union> set ts)" by simp
  have filt: "\<And>a. a \<in> set ?all \<Longrightarrow>
      filter (\<lambda>b. ?tk b = ?tk a) ?all = filter (\<lambda>b. time_value b = time_value a) ?all"
    by (rule filter_cong) (simp_all add: valid)
  show last: "\<forall>a \<in> set u. a = last (filter (\<lambda>b. ?tk b = ?tk a) ?all)"
  proof
    fix a assume a: "a \<in> set u"
    with u_all have "a \<in> set ?all" by blast
    from filt [OF this] kv(3) a show "a = last (filter (\<lambda>b. ?tk b = ?tk a) ?all)" by simp
  qed
  show "\<forall>a \<in> set u. ?tk a \<in> ?tk ` set ts \<longrightarrow> a \<in> set ts"
  proof (intro ballI impI)
    fix a assume a: "a \<in> set u" and "?tk a \<in> ?tk ` set ts"
    then have ex: "\<exists>b \<in> set ts. ?tk b = ?tk a" by force
    then have ne: "filter (\<lambda>b. ?tk b = ?tk a) ts \<noteq> []" by (simp add: filter_empty_conv)
    from last a have "a = last (filter (\<lambda>b. ?tk b = ?tk a) os @ filter (\<lambda>b. ?tk b = ?tk a) ts)"
      by simp
    with ne have "a = last (filter (\<lambda>b. ?tk b = ?tk a) ts)" by simp
    with last_filter_in(1) [OF ex] show "a \<in> set ts" by simp
  qed
qed

lemma uniqueAnomalies_Inl:
  assumes "uniqueAnomalies os ts = Inl e"
  shows "\<exists>a \<in> set (os @ ts). timestamp (dataPoint a) = InvalidDate"
proof -
  from assms have "anomaly_entries (os @ ts) = Inl e"
    by (simp add: uniqueAnomalies_def Let_def split: sum.splits)
  then show ?thesis by (rule anomaly_entries_Inl)
qed

text \<open>
  C4: for every series and configuration, either \<open>toISOString\<close> throws because some
  finding carries the invalid date, or the merged list \<open>uniqueAnomalies\<close> has pairwise
  different timestamps, its timestamps are exactly those of the findings of the two passes,
  each of its elements is the last finding with its timestamp in the concatenation of the
  outlier findings and the trend findings, and so an element whose timestamp the trend pass
  flagged is a finding of the trend pass.
\<close>

theorem detectAnomalies_merge:
  "case uniqueAnomalies (detectOutliers data config) (detectTrendAnomalies data config) of
     Inl e \<Rightarrow>
       (\<exists>a \<in> set (detectOutliers data config @ detectTrendAnomalies data config).
          timestamp (dataPoint a) = InvalidDate)
   | Inr unique \<Rightarrow>
       (\<forall>a \<in> set (detectOutliers data config @ detectTrendAnomalies data config).
          timestamp (dataPoint a) \<noteq> InvalidDate) \<and>
       distinct (map (\<lambda>a. timestamp (dataPoint a)) unique) \<and>
       (\<lambda>a. timestamp (dataPoint a)) ` set unique =
         (\<lambda>a. timestamp (dataPoint a)) `
           (set (detectOutliers data config) \<union> set (detectTrendAnomalies data config)) \<and>
       (\<forall>a \<in> set unique.
          a = last (filter (\<lambda>b. timestamp (dataPoint b) = timestamp (dataPoint a))
                      (detectOutliers data config @ detectTrendAnomalies data config))) \<and>
       (\<forall>a \<in> set unique.
          timestamp (dataPoint a) \<in>
            (\<lambda>a. timestamp (dataPoint a)) ` set (detectTrendAnomalies data config) \<longrightarrow>
          a \<in> set (detectTrendAnomalies data config))"
proof (cases "uniqueAnomalies (detectOutliers data config) (detectTrendAnomalies data config)")
  case (Inl e)
  from uniqueAnomalies_Inl [OF this] show ?thesis unfolding Inl by simp
next
  case (Inr u)
  from uniqueAnomalies_Inr [OF this] show ?thesis unfolding Inr by simp
qed

lemma spike_series_loop:
  "mean st = 200 \<Longrightarrow>
   detectOutliers_loop st DEFAULT_CONFIG 1200 (-800) spike_series [] =
     [\<lparr>dataPoint = \<lparr>timestamp = Date 57600000, pvalue = 1800, pcount = 1\<rparr>,
       anomalyType = Spike, severity = Critical, expectedValue = 200,
       deviationPercentage = Fin 800\<rparr>]"
  by (simp add: spike_series_def hourly_def DEFAULT_CONFIG_def getSeverity_def js_div_def Let_def)

lemma spike_series_outliers:
  "detectOutliers spike_series DEFAULT_CONFIG =
     [\<lparr>dataPoint = \<lparr>timestamp = Date 57600000, pvalue = 1800, pcount = 1\<rparr>,
       anomalyType = Spike, severity = Critical, expectedValue = 200,
       deviationPercentage = Fin 800\<rparr>]"
proof -
  have len: "length spike_series = 17" by (simp add: spike_series_def hourly_def)
  show ?thesis
    unfolding detectOutliers_unfold Let_def spike_series_stats len
    using spike_series_loop [OF spike_series_stats(1)]
    by (simp add: DEFAULT_CONFIG_def)
qed

lemma spike_series_trend:
  "detectTrendAnomalies spike_series DEFAULT_CONFIG =
     [\<lparr>dataPoint = \<lparr>timestamp = Date 57600000, pvalue = 1800, pcount = 1\<rparr>,
       anomalyType = Spike, severity = Critical, expectedValue = 100,
       deviationPercentage = Fin 1700\<rparr>]"
  by (simp add: detectTrendAnomalies_def spike_series_def hourly_def DEFAULT_CONFIG_def getSeverity_def js_div_def Let_def)

lemma spike_series_unique:
  "uniqueAnomalies (detectOutliers spike_series DEFAULT_CONFIG)
     (detectTrendAnomalies spike_series DEFAULT_CONFIG) =
   Inr [\<lparr>dataPoint = \<lparr>timestamp = Date 57600000, pvalue = 1800, pcount = 1\<rparr>,
         anomalyType = Spike, severity = Critical, expectedValue = 100,
         deviationPercentage = Fin 1700\<rparr>]"
  unfolding spike_series_outliers spike_series_trend
  by (simp add: uniqueAnomalies_def Let_def toISOString_def new_Map_def map_values_def)

theorem detectAnomalies_merge_witness:
  "detectOutliers spike_series DEFAULT_CONFIG =
     [\<lparr>dataPoint = \<lparr>timestamp = Date 57600000, pvalue = 1800, pcount = 1\<rparr>,
       anomalyType = Spike, severity = Critical, expectedValue = 200,
       deviationPercentage = Fin 800\<rparr>] \<and>
   detectTrendAnomalies spike_series DEFAULT_CONFIG =
     [\<lparr>dataPoint = \<lparr>timestamp = Date 57600000, pvalue = 1800, pcount = 1\<rparr>,
       anomalyType = Spike, severity = Critical, expectedValue = 100,
       deviationPercentage = Fin 1700\<rparr>] \<and>
   uniqueAnomalies (detectOutliers spike_series DEFAULT_CONFIG)
     (detectTrendAnomalies spike_series DEFAULT_CONFIG) =
     Inr [\<lparr>dataPoint = \<lparr>timestamp = Date 57600000, pvalue = 1800, pcount = 1\<rparr>,
           anomalyType = Spike, severity = Critical, expectedValue = 100,
           deviationPercentage = Fin 1700\<rparr>] \<and>
   \<lparr>dataPoint = \<lparr>timestamp = Date 57600000, pvalue = 1800, pcount = 1\<rparr>,
     anomalyType = Spike, severity = Critical, expectedValue = 100,
     deviationPercentage = Fin 1700\<rparr> \<in> set (detectTrendAnomalies spike_series DEFAULT_CONFIG)"
  using detectAnomalies_merge [of spike_series DEFAULT_CONFIG]
  unfolding spike_series_unique
  by (simp add: spike_series_outliers spike_series_trend)

text \<open>
  \<open>detectAnomalies\<close> inserts one row for each element of the merged list, so that the rows
  of one run have pairwise different \<open>detected_at\<close>.
\<close>

lemma detectAnomalies_rows_distinct:
  assumes "detectAnomalies tenantId eventType data config = Inr rows"
  shows "distinct (map detected_at rows)"
proof (cases "real (length data) < minDataPoints config")
  case True
  with assms show ?thesis by (simp add: detectAnomalies_def)
next
  case False
  with assms obtain u where
    u: "uniqueAnomalies (detectOutliers data config) (detectTrendAnomalies data config) = Inr u"
    and rows: "map detected_at rows = map (\<lambda>a. timestamp (dataPoint a)) u"
    by (auto simp: detectAnomalies_def Let_def o_def split: sum.splits)
  from uniqueAnomalies_Inr(2) [OF u] rows show ?thesis by simp
qed

end
